theory Spec2Isabelle
  imports Main "HOL-Library.AList" "HOL-Library.Sublist"
begin

section \<open>The privacy store of the hiring assistant (utils/data\_handler.py)\<close>

text \<open>
  The class \<^verbatim>\<open>DataHandler\<close> keeps candidate records under \<^verbatim>\<open>{data_dir}/encrypted\<close>,
  export bundles under \<^verbatim>\<open>{data_dir}/exports\<close> and an audit log in
  \<^verbatim>\<open>{data_dir}/activity_log.json\<close>. Its methods are embedded as functions that take the
  world (clock, entropy, the two directories, the log file, the file operations the
  operating system refuses) and return their result with the new world.

  Conventions of the embedding.
  \<^item> A Python \<^verbatim>\<open>str\<close> is a \<open>string\<close> holding its UTF-8 bytes, so \<^verbatim>\<open>encode()\<close> and
    \<^verbatim>\<open>decode()\<close> are the identity; text is assumed well formed.
  \<^item> A naive \<^verbatim>\<open>datetime\<close> is an \<open>int\<close>: microseconds on the local time line. The range
    limits of \<^verbatim>\<open>datetime\<close> (years 1 to 9999) are not modelled.
  \<^item> A directory is an association list from file names to contents, in the order
    \<^verbatim>\<open>os.listdir\<close> reports them. A session id is a file-name component.
  \<^item> What \<^verbatim>\<open>json.load\<close> returns is a typed record with optional keys; a file on which
    \<^verbatim>\<open>json.load\<close> raises is \<open>Unparseable\<close>.
  \<^item> Output written by \<^verbatim>\<open>print\<close> is not part of the model.
\<close>

subsection \<open>Library functions the module calls\<close>

datatype json =
    JNull
  | JBool bool
  | JNum int
  | JStr string
  | JArr "json list"
  | JObj "(string \<times> json) list"

text \<open>
  The functions of \<^verbatim>\<open>cryptography.fernet\<close>, \<^verbatim>\<open>base64\<close>, \<^verbatim>\<open>hashlib\<close>, \<^verbatim>\<open>datetime\<close> and
  \<^verbatim>\<open>json\<close> are parameters. \<open>None\<close> is a raised exception. \<open>fernet_encrypt\<close> takes the
  key, the entropy it draws (initialisation vector and time stamp) and the plaintext.
  \<open>strftime\<close> is \<^verbatim>\<open>strftime('%Y%m%d_%H%M%S')\<close>, a function of the whole seconds.
\<close>

record libs =
  fernet_encrypt :: "string \<Rightarrow> nat \<Rightarrow> string \<Rightarrow> string option"
  fernet_decrypt :: "string \<Rightarrow> string \<Rightarrow> string option"
  b64encode :: "string \<Rightarrow> string"
  b64decode :: "string \<Rightarrow> string option"
  sha256_hexdigest :: "string \<Rightarrow> string"
  isoformat :: "int \<Rightarrow> string"
  fromisoformat :: "string \<Rightarrow> int option"
  strftime :: "int \<Rightarrow> string"
  json_dumps :: "json \<Rightarrow> string"
  json_loads :: "string \<Rightarrow> json option"

subsection \<open>Data model\<close>

text \<open>The dataclass \<^verbatim>\<open>CandidateInfo\<close> (app.py) is \<open>string info\<close>; the dictionary
  \<^verbatim>\<open>candidate_info\<close> that \<^verbatim>\<open>load_candidate_data\<close> builds has the same keys with optional
  identifying fields, \<open>string option info\<close>.\<close>

record 's info =
  full_name :: 's
  email :: 's
  phone :: 's
  years_experience :: string
  desired_positions :: string
  current_location :: 's
  tech_stack :: "string list"

text \<open>The dictionary \<^verbatim>\<open>candidate_info\<close> as \<^verbatim>\<open>save_candidate_data\<close> writes it. \<open>None\<close> is a
  JSON null or an absent key.\<close>

record stored_info =
  full_name_encrypted :: "string option"
  email_encrypted :: "string option"
  phone_encrypted :: "string option"
  current_location_encrypted :: "string option"
  stored_years_experience :: string
  stored_desired_positions :: string
  stored_tech_stack :: "string list"

record privacy_hashes =
  email_hash :: "string option"
  phone_hash :: "string option"

record metadata =
  ip_address_hash :: "string option"
  user_agent_hash :: "string option"
  session_duration :: "string option"
  completion_status :: "string option"

text \<open>The top-level dictionary of a record file; \<open>'ci\<close> is \<open>stored_info\<close> on disk and
  \<open>string option info\<close> in what \<^verbatim>\<open>load_candidate_data\<close> returns. \<open>None\<close> is an absent key.\<close>

record 'ci candidate_file =
  session_id :: "string option"
  timestamp :: "string option"
  data_version :: "string option"
  privacy_compliant :: "bool option"
  candidate_info :: "'ci option"
  privacy_hashes :: "privacy_hashes option"
  metadata :: "metadata option"
  conversation_history_encrypted :: "string option"
  conversation_history :: "json option"

datatype content = Unparseable | Stored "stored_info candidate_file"

datatype meta_value = MBool bool | MInt int | MStr string

record log_entry =
  log_timestamp :: string
  log_activity :: string
  log_session_id :: string
  log_metadata :: "(string \<times> meta_value) list"

text \<open>The audit log file: absent, present but not a JSON object with a list under
  \<^verbatim>\<open>'activities'\<close>, or that list.\<close>

datatype log_file = NoLog | BadLog | Log "log_entry list"

record export_info =
  exported_at :: string
  export_session_id :: string
  export_format :: string
  gdpr_compliant :: bool

record conversation_summary =
  total_messages :: nat
  summary_completion_status :: string

record privacy_notice =
  data_controller :: string
  purpose :: string
  retention_period :: string
  rights :: string

record export_data =
  export_info :: export_info
  personal_information :: "string option info option"
  conversation_summary :: conversation_summary
  privacy_notice :: privacy_notice

datatype fsop = OpRead | OpWrite | OpChmod | OpRemove | OpStat | OpList

text \<open>The world. \<open>clock\<close> is the sequence of readings of the system clock and \<open>ticks\<close>
  counts the readings taken so far; \<open>rng\<close> counts the entropy draws; an export file is
  kept with its modification time; \<open>denied\<close> holds the operations on paths at which
  the operating system raises \<^verbatim>\<open>OSError\<close>.\<close>

record world =
  clock :: "nat \<Rightarrow> int"
  ticks :: nat
  rng :: nat
  encrypted :: "(string \<times> content) list"
  exports :: "(string \<times> int \<times> export_data) list"
  activity_log :: log_file
  denied :: "(fsop \<times> string) set"

record data_handler =
  data_dir :: string
  encryption_key :: string

subsection \<open>Clock, paths and file operations\<close>

definition now :: "world \<Rightarrow> int \<times> world" where
  "now w = (clock w (ticks w), w\<lparr>ticks := Suc (ticks w)\<rparr>)"

definition io_fails :: "world \<Rightarrow> fsop \<Rightarrow> string \<Rightarrow> bool" where
  "io_fails w op p = ((op, p) \<in> denied w)"

definition candidate_filename :: "string \<Rightarrow> string" where
  "candidate_filename sid = ''candidate_'' @ sid @ ''.json''"

definition encrypted_path :: "data_handler \<Rightarrow> string \<Rightarrow> string" where
  "encrypted_path self name = data_dir self @ ''/encrypted/'' @ name"

definition exports_path :: "data_handler \<Rightarrow> string \<Rightarrow> string" where
  "exports_path self name = data_dir self @ ''/exports/'' @ name"

definition encrypted_dir :: "data_handler \<Rightarrow> string" where
  "encrypted_dir self = data_dir self @ ''/encrypted''"

definition exports_dir :: "data_handler \<Rightarrow> string" where
  "exports_dir self = data_dir self @ ''/exports''"

definition log_path :: "data_handler \<Rightarrow> string" where
  "log_path self = data_dir self @ ''/activity_log.json''"


subsection \<open>Encryption and hashing\<close>

text \<open>\<^verbatim>\<open>_encrypt_data\<close>: on any exception the data is returned as it came.\<close>

definition encrypt_data :: "libs \<Rightarrow> data_handler \<Rightarrow> string \<Rightarrow> world \<Rightarrow> string \<times> world" where
  "encrypt_data E self data w =
     ((case fernet_encrypt E (encryption_key self) (rng w) data of
         None \<Rightarrow> data
       | Some encrypted_data \<Rightarrow> b64encode E encrypted_data),
      w\<lparr>rng := Suc (rng w)\<rparr>)"

text \<open>\<^verbatim>\<open>_decrypt_data\<close>: on any exception the input is returned as it came.\<close>

definition decrypt_data :: "libs \<Rightarrow> data_handler \<Rightarrow> string \<Rightarrow> string" where
  "decrypt_data E self encrypted_data =
     (case b64decode E encrypted_data of
        None \<Rightarrow> encrypted_data
      | Some decoded_data \<Rightarrow>
          (case fernet_decrypt E (encryption_key self) decoded_data of
             None \<Rightarrow> encrypted_data
           | Some decrypted_data \<Rightarrow> decrypted_data))"

definition hash_email :: "libs \<Rightarrow> string \<Rightarrow> string" where
  "hash_email E e = take 16 (sha256_hexdigest E e)"

definition hash_phone :: "libs \<Rightarrow> string \<Rightarrow> string" where
  "hash_phone E p = take 12 (sha256_hexdigest E p)"

subsection \<open>The audit log\<close>

text \<open>\<^verbatim>\<open>xs[-1000:]\<close>\<close>

definition last_n :: "nat \<Rightarrow> 'a list \<Rightarrow> 'a list" where
  "last_n n xs = drop (length xs - n) xs"

text \<open>\<^verbatim>\<open>_log_data_activity\<close>: every exception is caught and leaves the log file as it was.\<close>

definition log_data_activity ::
  "libs \<Rightarrow> data_handler \<Rightarrow> string \<Rightarrow> string \<Rightarrow> (string \<times> meta_value) list option \<Rightarrow> world \<Rightarrow> world"
where
  "log_data_activity E self activity sid meta w =
     (case now w of (t, w1) \<Rightarrow>
        let log_entry = \<lparr>log_timestamp = isoformat E t, log_activity = activity,
                         log_session_id = sid,
                         log_metadata = (case meta of None \<Rightarrow> [] | Some m \<Rightarrow> m)\<rparr>;
            loaded = (case activity_log w1 of
                        NoLog \<Rightarrow> Some []
                      | BadLog \<Rightarrow> None
                      | Log acts \<Rightarrow> if io_fails w1 OpRead (log_path self) then None else Some acts)
        in (case loaded of
              None \<Rightarrow> w1
            | Some acts \<Rightarrow>
                let acts1 = acts @ [log_entry];
                    acts2 = (if length acts1 > 1000 then last_n 1000 acts1 else acts1)
                in if io_fails w1 OpWrite (log_path self) then w1
                   else w1\<lparr>activity_log := Log acts2\<rparr>))"

subsection \<open>Saving and loading a record\<close>

text \<open>The expression \<^verbatim>\<open>self._encrypt_data(x) if x else None\<close>.\<close>

definition encrypt_field ::
  "libs \<Rightarrow> data_handler \<Rightarrow> string \<Rightarrow> world \<Rightarrow> string option \<times> world"
where
  "encrypt_field E self x w =
     (if x \<noteq> [] then (case encrypt_data E self x w of (c, w') \<Rightarrow> (Some c, w'))
      else (None, w))"

text \<open>Truth value of the optional argument \<^verbatim>\<open>conversation_history\<close>: \<^verbatim>\<open>None\<close> and the
  empty list are false.\<close>

definition truthy :: "json list option \<Rightarrow> bool" where
  "truthy h = (case h of None \<Rightarrow> False | Some ms \<Rightarrow> ms \<noteq> [])"

text \<open>The dictionary \<^verbatim>\<open>encrypted_data\<close> that \<^verbatim>\<open>save_candidate_data\<close> builds from the
  candidate, the session id, the transcript and the time stamp: the four identifying
  fields and then the transcript are encrypted, in the order of the source.\<close>

definition build_encrypted_data ::
  "libs \<Rightarrow> data_handler \<Rightarrow> string info \<Rightarrow> string \<Rightarrow> json list option \<Rightarrow> int \<Rightarrow> world
     \<Rightarrow> stored_info candidate_file \<times> world"
where
  "build_encrypted_data E self ci sid history ts w0 =
     (case encrypt_field E self (full_name ci) w0 of (fn, w1) \<Rightarrow>
      case encrypt_field E self (email ci) w1 of (em, w2) \<Rightarrow>
      case encrypt_field E self (phone ci) w2 of (ph, w3) \<Rightarrow>
      case encrypt_field E self (current_location ci) w3 of (loc, w4) \<Rightarrow>
      case (case history of
              None \<Rightarrow> (None, w4)
            | Some ms \<Rightarrow>
                if ms \<noteq> []
                then (case encrypt_data E self (json_dumps E (JArr ms)) w4 of
                        (c, w') \<Rightarrow> (Some c, w'))
                else (None, w4)) of (hist, w5) \<Rightarrow>
      (\<lparr>session_id = Some sid,
        timestamp = Some (isoformat E ts),
        data_version = Some ''1.0'',
        privacy_compliant = Some True,
        candidate_info = Some
          \<lparr>full_name_encrypted = fn,
           email_encrypted = em,
           phone_encrypted = ph,
           current_location_encrypted = loc,
           stored_years_experience = years_experience ci,
           stored_desired_positions = desired_positions ci,
           stored_tech_stack = tech_stack ci\<rparr>,
        privacy_hashes = Some
          \<lparr>email_hash = (if email ci \<noteq> [] then Some (hash_email E (email ci)) else None),
           phone_hash = (if phone ci \<noteq> [] then Some (hash_phone E (phone ci)) else None)\<rparr>,
        metadata = Some
          \<lparr>ip_address_hash = None, user_agent_hash = None, session_duration = None,
           completion_status =
             Some (if truthy history then ''complete'' else ''incomplete'')\<rparr>,
        conversation_history_encrypted = hist,
        conversation_history = None\<rparr>,
       w5))"

text \<open>\<^verbatim>\<open>save_candidate_data\<close>. The clock is read, the dictionary is built, and then the
  file is opened, written and restricted; each of these two file operations may raise,
  which the \<^verbatim>\<open>except\<close> clause turns into \<open>False\<close>.\<close>

definition save_candidate_data ::
  "libs \<Rightarrow> data_handler \<Rightarrow> string info \<Rightarrow> string \<Rightarrow> json list option \<Rightarrow> world \<Rightarrow> bool \<times> world"
where
  "save_candidate_data E self ci sid history w =
     (case now w of (ts, w0) \<Rightarrow>
      case build_encrypted_data E self ci sid history ts w0 of (encrypted_data, w5) \<Rightarrow>
      let name = candidate_filename sid;
          filename = encrypted_path self name
      in if io_fails w5 OpWrite filename then (False, w5)
         else
           let w6 = w5\<lparr>encrypted := AList.update name (Stored encrypted_data) (encrypted w5)\<rparr>
           in if io_fails w6 OpChmod filename then (False, w6)
              else (True,
                    log_data_activity E self ''SAVE'' sid
                      (Some [(''has_personal_info'', MBool (full_name ci \<noteq> [])),
                             (''has_contact_info'', MBool (email ci \<noteq> [])),
                             (''tech_stack_count'', MInt (int (length (tech_stack ci))))])
                      w6))"

text \<open>The expression \<^verbatim>\<open>self._decrypt_data(d[k]) if d.get(k) else None\<close>: a null, an
  absent key and the empty string are all false.\<close>

definition decrypt_field :: "libs \<Rightarrow> data_handler \<Rightarrow> string option \<Rightarrow> string option" where
  "decrypt_field E self v =
     (case v of
        None \<Rightarrow> None
      | Some c \<Rightarrow> if c \<noteq> [] then Some (decrypt_data E self c) else None)"

text \<open>The decryption part of \<^verbatim>\<open>load_candidate_data\<close>: a copy of the file's dictionary
  with \<^verbatim>\<open>candidate_info\<close> replaced by its decrypted form and, when the file has an
  encrypted transcript, \<^verbatim>\<open>conversation_history\<close> set to the parsed transcript. \<open>None\<close>
  is the exception of \<^verbatim>\<open>json.loads\<close> on a transcript that does not parse.\<close>

definition decrypt_record ::
  "libs \<Rightarrow> data_handler \<Rightarrow> stored_info candidate_file \<Rightarrow> string option info candidate_file option"
where
  "decrypt_record E self encrypted_data =
     (let decrypted_info =
            (case candidate_info encrypted_data of
               None \<Rightarrow> None
             | Some ci \<Rightarrow> Some
                 \<lparr>full_name = decrypt_field E self (full_name_encrypted ci),
                  email = decrypt_field E self (email_encrypted ci),
                  phone = decrypt_field E self (phone_encrypted ci),
                  years_experience = stored_years_experience ci,
                  desired_positions = stored_desired_positions ci,
                  current_location = decrypt_field E self (current_location_encrypted ci),
                  tech_stack = stored_tech_stack ci\<rparr>);
          history =
            (case conversation_history_encrypted encrypted_data of
               None \<Rightarrow> Some (conversation_history encrypted_data)
             | Some c \<Rightarrow>
                 (case json_loads E (decrypt_data E self c) of
                    None \<Rightarrow> None
                  | Some j \<Rightarrow> Some (Some j)))
      in (case history of
            None \<Rightarrow> None
          | Some h \<Rightarrow> Some
              \<lparr>session_id = session_id encrypted_data,
               timestamp = timestamp encrypted_data,
               data_version = data_version encrypted_data,
               privacy_compliant = privacy_compliant encrypted_data,
               candidate_info = decrypted_info,
               privacy_hashes = privacy_hashes encrypted_data,
               metadata = metadata encrypted_data,
               conversation_history_encrypted = conversation_history_encrypted encrypted_data,
               conversation_history = h\<rparr>))"

text \<open>\<^verbatim>\<open>load_candidate_data\<close>. A missing file gives \<open>None\<close>; a failing read, a file that
  is not JSON or a transcript that does not parse ends in the \<^verbatim>\<open>except\<close> clause:
  \<open>None\<close>, nothing logged.\<close>

definition load_candidate_data ::
  "libs \<Rightarrow> data_handler \<Rightarrow> string \<Rightarrow> world \<Rightarrow> string option info candidate_file option \<times> world"
where
  "load_candidate_data E self sid w =
     (let name = candidate_filename sid;
          filename = encrypted_path self name
      in case map_of (encrypted w) name of
           None \<Rightarrow> (None, w)
         | Some file \<Rightarrow>
             if io_fails w OpRead filename then (None, w)
             else (case file of
                     Unparseable \<Rightarrow> (None, w)
                   | Stored encrypted_data \<Rightarrow>
                       (case decrypt_record E self encrypted_data of
                          None \<Rightarrow> (None, w)
                        | Some decrypted_data \<Rightarrow>
                            (Some decrypted_data,
                             log_data_activity E self ''LOAD'' sid None w))))"

subsection \<open>Export and erasure\<close>

text \<open>\<^verbatim>\<open>not data\<close> for a dictionary: it has no key.\<close>

definition dict_empty :: "'ci candidate_file \<Rightarrow> bool" where
  "dict_empty d =
     (session_id d = None \<and> timestamp d = None \<and> data_version d = None \<and>
      privacy_compliant d = None \<and> candidate_info d = None \<and> privacy_hashes d = None \<and>
      metadata d = None \<and> conversation_history_encrypted d = None \<and>
      conversation_history d = None)"

text \<open>\<^verbatim>\<open>len\<close> of a JSON value; \<open>None\<close> is \<^verbatim>\<open>TypeError\<close>.\<close>

fun py_len :: "json \<Rightarrow> nat option" where
  "py_len (JStr s) = Some (length s)"
| "py_len (JArr xs) = Some (length xs)"
| "py_len (JObj kvs) = Some (length kvs)"
| "py_len _ = None"

definition export_filename :: "libs \<Rightarrow> string \<Rightarrow> int \<Rightarrow> string" where
  "export_filename E sid t = ''export_'' @ sid @ ''_'' @ strftime E (t div 1000000) @ ''.json''"

definition the_privacy_notice :: privacy_notice where
  "the_privacy_notice =
     \<lparr>data_controller = ''TalentScout Recruitment Agency'',
      purpose = ''Initial candidate screening and recruitment'',
      retention_period = ''30 days from collection'',
      rights = ''You have the right to access, rectify, erase, and port your data''\<rparr>"

text \<open>\<^verbatim>\<open>export_candidate_data\<close>. The file system stamps the written file with a clock
  reading of its own.\<close>

definition export_candidate_data ::
  "libs \<Rightarrow> data_handler \<Rightarrow> string \<Rightarrow> string \<Rightarrow> world \<Rightarrow> string option \<times> world"
where
  "export_candidate_data E self sid fmt w =
     (case load_candidate_data E self sid w of
        (None, w1) \<Rightarrow> (None, w1)
      | (Some data, w1) \<Rightarrow>
          if dict_empty data then (None, w1)
          else (case now w1 of (t_export, w2) \<Rightarrow>
            (case (case conversation_history data of None \<Rightarrow> Some 0 | Some j \<Rightarrow> py_len j) of
               None \<Rightarrow> (None, w2)
             | Some n \<Rightarrow>
                 let export_data =
                       \<lparr>export_info =
                          \<lparr>exported_at = isoformat E t_export, export_session_id = sid,
                           export_format = fmt, gdpr_compliant = True\<rparr>,
                        personal_information = candidate_info data,
                        conversation_summary =
                          \<lparr>total_messages = n,
                           summary_completion_status =
                             (case metadata data of
                                None \<Rightarrow> ''unknown''
                              | Some m \<Rightarrow>
                                  (case completion_status m of
                                     None \<Rightarrow> ''unknown'' | Some c \<Rightarrow> c))\<rparr>,
                        privacy_notice = the_privacy_notice\<rparr>
                 in (case now w2 of (t_name, w3) \<Rightarrow>
                       let name = export_filename E sid t_name;
                           export_path = exports_path self name
                       in if io_fails w3 OpWrite export_path then (None, w3)
                          else (case now w3 of (mtime, w4) \<Rightarrow>
                            let w5 = w4\<lparr>exports :=
                                        AList.update name (mtime, export_data) (exports w4)\<rparr>
                            in (Some export_path,
                                log_data_activity E self ''EXPORT'' sid
                                  (Some [(''format'', MStr fmt)]) w5))))))"

text \<open>The loop of \<^verbatim>\<open>delete_candidate_data\<close> over the listing of the exports directory.
  \<open>False\<close> is an exception raised by \<^verbatim>\<open>os.remove\<close>, which leaves the loop.\<close>

fun remove_session_exports ::
  "data_handler \<Rightarrow> string \<Rightarrow> string list \<Rightarrow> world \<Rightarrow> bool \<times> world"
where
  "remove_session_exports self export_pattern [] w = (True, w)"
| "remove_session_exports self export_pattern (export_file # rest) w =
     (if prefix export_pattern export_file
      then (if map_of (exports w) export_file = None
               \<or> io_fails w OpRemove (exports_path self export_file)
            then (False, w)
            else remove_session_exports self export_pattern rest
                   (w\<lparr>exports := AList.delete export_file (exports w)\<rparr>))
      else remove_session_exports self export_pattern rest w)"

text \<open>\<^verbatim>\<open>delete_candidate_data\<close>\<close>

definition delete_candidate_data ::
  "libs \<Rightarrow> data_handler \<Rightarrow> string \<Rightarrow> string \<Rightarrow> world \<Rightarrow> bool \<times> world"
where
  "delete_candidate_data E self sid reason w =
     (let name = candidate_filename sid;
          filename = encrypted_path self name
      in if map_of (encrypted w) name \<noteq> None
         then
           let w1 = log_data_activity E self ''DELETE'' sid (Some [(''reason'', MStr reason)]) w
           in if io_fails w1 OpRemove filename then (False, w1)
              else
                let w2 = w1\<lparr>encrypted := AList.delete name (encrypted w1)\<rparr>;
                    export_pattern = ''export_'' @ sid @ ''_''
                in if io_fails w2 OpList (exports_dir self) then (False, w2)
                   else remove_session_exports self export_pattern (map fst (exports w2)) w2
         else (False, w))"

subsection \<open>Retention sweep\<close>

text \<open>What the statements \<^verbatim>\<open>data = json.load(f)\<close> and
  \<^verbatim>\<open>datetime.fromisoformat(data['timestamp'])\<close> yield for a file of the encrypted
  directory: the dictionary and the date, or \<open>None\<close> when one of them raises (file gone,
  unreadable, not JSON, no \<^verbatim>\<open>timestamp\<close> key, a time stamp that does not parse).\<close>

definition read_record ::
  "libs \<Rightarrow> data_handler \<Rightarrow> world \<Rightarrow> string \<Rightarrow> (stored_info candidate_file \<times> int) option"
where
  "read_record E self w filename =
     (case map_of (encrypted w) filename of
        None \<Rightarrow> None
      | Some file \<Rightarrow>
          if io_fails w OpRead (encrypted_path self filename) then None
          else (case file of
                  Unparseable \<Rightarrow> None
                | Stored data \<Rightarrow>
                    (case timestamp data of
                       None \<Rightarrow> None
                     | Some ts \<Rightarrow>
                         (case fromisoformat E ts of
                            None \<Rightarrow> None
                          | Some file_date \<Rightarrow> Some (data, file_date)))))"



text \<open>The second loop, over the exports directory. Nothing inside catches: an exception
  of \<^verbatim>\<open>os.stat\<close> or \<^verbatim>\<open>os.remove\<close> leaves the loop (\<open>False\<close>) for the outer \<^verbatim>\<open>except\<close>.\<close>

fun cleanup_exports :: "data_handler \<Rightarrow> int \<Rightarrow> string list \<Rightarrow> world \<Rightarrow> bool \<times> world" where
  "cleanup_exports self cutoff_date [] w = (True, w)"
| "cleanup_exports self cutoff_date (filename # rest) w =
     (if prefix ''export_'' filename
      then (case map_of (exports w) filename of
              None \<Rightarrow> (False, w)
            | Some (mtime, _) \<Rightarrow>
                if io_fails w OpStat (exports_path self filename) then (False, w)
                else if mtime < cutoff_date
                then (if io_fails w OpRemove (exports_path self filename) then (False, w)
                      else cleanup_exports self cutoff_date rest
                             (w\<lparr>exports := AList.delete filename (exports w)\<rparr>))
                else cleanup_exports self cutoff_date rest w)
      else cleanup_exports self cutoff_date rest w)"


subsection \<open>Privacy report\<close>

record compliance_status =
  encryption_enabled :: bool
  retention_policy_active :: bool
  audit_logging_enabled :: bool
  report_gdpr_compliant :: bool

record privacy_report =
  generated_at :: string
  total_records :: nat
  encrypted_records :: nat
  oldest_record :: "string option"
  newest_record :: "string option"
  compliance_status :: compliance_status
  recent_activities :: "log_entry list"

text \<open>The result of \<^verbatim>\<open>get_privacy_report\<close>: the report, or the dictionary with the single
  key \<^verbatim>\<open>'error'\<close>.\<close>

datatype report_result = ReportError | Report privacy_report

text \<open>\<^verbatim>\<open>min(dates)\<close> and \<^verbatim>\<open>max(dates)\<close> of a non-empty list.\<close>

definition min_date :: "int list \<Rightarrow> int" where
  "min_date dates = fold min (tl dates) (hd dates)"

definition max_date :: "int list \<Rightarrow> int" where
  "max_date dates = fold max (tl dates) (hd dates)"

text \<open>\<^verbatim>\<open>get_privacy_report\<close>. The encrypted directory exists (the constructor makes it).
  The function has no access to the key: it takes no \<open>data_handler\<close> field but the
  directory.\<close>

definition get_privacy_report :: "libs \<Rightarrow> data_handler \<Rightarrow> world \<Rightarrow> report_result \<times> world" where
  "get_privacy_report E self w =
     (case now w of (t, w0) \<Rightarrow>
        if io_fails w0 OpList (encrypted_dir self) then (ReportError, w0)
        else
          let files = filter (prefix ''candidate_'') (map fst (encrypted w0));
              dates = List.map_filter
                        (\<lambda>filename. map_option snd (read_record E self w0 filename)) files;
              recent = (case activity_log w0 of
                          NoLog \<Rightarrow> Some []
                        | BadLog \<Rightarrow> None
                        | Log acts \<Rightarrow>
                            if io_fails w0 OpRead (log_path self) then None
                            else Some (last_n 10 acts))
          in (case recent of
                None \<Rightarrow> (ReportError, w0)
              | Some acts \<Rightarrow>
                  (Report
                     \<lparr>generated_at = isoformat E t,
                      total_records = length files,
                      encrypted_records = length files,
                      oldest_record =
                        (if dates \<noteq> [] then Some (isoformat E (min_date dates)) else None),
                      newest_record =
                        (if dates \<noteq> [] then Some (isoformat E (max_date dates)) else None),
                      compliance_status =
                        \<lparr>encryption_enabled = True, retention_policy_active = True,
                         audit_logging_enabled = True, report_gdpr_compliant = True\<rparr>,
                      recent_activities = acts\<rparr>,
                   w0)))"

subsection \<open>Contracts of the libraries and sample instances\<close>

text \<open>What the module relies on from \<^verbatim>\<open>Fernet\<close> under one key and from \<^verbatim>\<open>base64\<close>:
  encryption never raises, its token is not empty in its transport encoding, decoding
  undoes encoding, and decryption under the same key gives the plaintext back.\<close>

definition cipher_ok :: "libs \<Rightarrow> string \<Rightarrow> bool" where
  "cipher_ok E key =
     (\<forall>iv x. \<exists>tok. fernet_encrypt E key iv x = Some tok \<and>
                  b64encode E tok \<noteq> [] \<and>
                  b64decode E (b64encode E tok) = Some tok \<and>
                  fernet_decrypt E key tok = Some x)"

text \<open>A transcript survives storage: there is none, or the cipher keeps its contract
  and \<^verbatim>\<open>json.loads\<close> reads back what \<^verbatim>\<open>json.dumps\<close> wrote.\<close>

definition transcript_ok :: "libs \<Rightarrow> data_handler \<Rightarrow> json list option \<Rightarrow> bool" where
  "transcript_ok E self h =
     (case h of
        None \<Rightarrow> True
      | Some ms \<Rightarrow>
          ms = [] \<or>
          (cipher_ok E (encryption_key self) \<and>
           json_loads E (json_dumps E (JArr ms)) = Some (JArr ms)))"

text \<open>Small instances of the library parameters, of a handler, a world and a candidate,
  at which the theorems below are instantiated.\<close>

definition demo_libs :: libs where
  "demo_libs =
     \<lparr>fernet_encrypt = (\<lambda>key iv x. Some (key @ x)),
      fernet_decrypt = (\<lambda>key tok. if prefix key tok then Some (drop (length key) tok) else None),
      b64encode = (\<lambda>b. CHR ''='' # b),
      b64decode = (\<lambda>s. case s of [] \<Rightarrow> None | c # b \<Rightarrow> if c = CHR ''='' then Some b else None),
      sha256_hexdigest = (\<lambda>s. ''0123456789abcdef0123456789abcdef''),
      isoformat = (\<lambda>t. if t < 172800000000 then ''old'' else ''new''),
      fromisoformat = (\<lambda>s. if s = ''old'' then Some 0
                             else if s = ''new'' then Some 172800000000 else None),
      strftime = (\<lambda>s. if s mod 2 = 0 then ''19700103_000000'' else ''19700103_000001''),
      json_dumps = (\<lambda>j. case j of JArr ms \<Rightarrow> replicate (length ms) CHR ''m'' | _ \<Rightarrow> []),
      json_loads = (\<lambda>s. Some (JArr (replicate (length s) JNull)))\<rparr>"

definition demo_handler :: data_handler where
  "demo_handler = \<lparr>data_dir = ''data'', encryption_key = ''k''\<rparr>"

definition demo_world :: world where
  "demo_world =
     \<lparr>clock = (\<lambda>n. 172800000000 + int n), ticks = 0, rng = 0, encrypted = [], exports = [],
      activity_log = NoLog, denied = {}\<rparr>"

definition demo_candidate :: "string info" where
  "demo_candidate =
     \<lparr>full_name = ''Ada Lovelace'', email = ''a@b.com'', phone = ''555-123-4567'',
      years_experience = ''3'', desired_positions = ''Engineer'',
      current_location = ''London'', tech_stack = [''Python'', ''Docker'']\<rparr>"

subsection \<open>Vocabulary of the audit-log property\<close>

text \<open>The entries the audit log holds, a sequence of logged activities, and the entry that
  \<^verbatim>\<open>_log_data_activity\<close> builds.\<close>

definition log_entries :: "world \<Rightarrow> log_entry list" where
  "log_entries w = (case activity_log w of Log acts \<Rightarrow> acts | _ \<Rightarrow> [])"

fun run_log ::
  "libs \<Rightarrow> data_handler \<Rightarrow> (string \<times> string \<times> (string \<times> meta_value) list option) list \<Rightarrow> world \<Rightarrow> world"
where
  "run_log E self [] w = w"
| "run_log E self ((activity, sid, meta) # rest) w =
     run_log E self rest (log_data_activity E self activity sid meta w)"

definition new_log_entry ::
  "libs \<Rightarrow> string \<Rightarrow> string \<Rightarrow> (string \<times> meta_value) list option \<Rightarrow> world \<Rightarrow> log_entry"
where
  "new_log_entry E activity sid meta w =
     \<lparr>log_timestamp = isoformat E (clock w (ticks w)), log_activity = activity,
      log_session_id = sid, log_metadata = (case meta of None \<Rightarrow> [] | Some m \<Rightarrow> m)\<rparr>"

definition full_log_world :: world where
  "full_log_world =
     demo_world\<lparr>activity_log :=
       Log (\<lparr>log_timestamp = ''old'', log_activity = ''SAVE'', log_session_id = ''first'',
              log_metadata = []\<rparr> #
            replicate 999 \<lparr>log_timestamp = ''old'', log_activity = ''LOAD'',
                            log_session_id = ''s1'', log_metadata = []\<rparr>)\<rparr>"

text \<open>A cipher whose encryption always raises, and a candidate whose identifying fields
  are all empty.\<close>

definition failing_libs :: libs where
  "failing_libs = demo_libs\<lparr>fernet_encrypt := (\<lambda>key iv x. None)\<rparr>"

definition blank_candidate :: "string info" where
  "blank_candidate =
     \<lparr>full_name = [], email = [], phone = [],
      years_experience = ''3'', desired_positions = ''Engineer'',
      current_location = [], tech_stack = [''Python'']\<rparr>"

subsection \<open>Vocabulary of the export and erasure properties\<close>

text \<open>A session can be exported in a world: \<^verbatim>\<open>load_candidate_data\<close> returns a dictionary
  that is not empty and whose transcript, if any, has a length.\<close>

definition exportable :: "libs \<Rightarrow> data_handler \<Rightarrow> string \<Rightarrow> world \<Rightarrow> bool" where
  "exportable E self sid w =
     (case fst (load_candidate_data E self sid w) of
        None \<Rightarrow> False
      | Some data \<Rightarrow>
          \<not> dict_empty data \<and>
          (case conversation_history data of None \<Rightarrow> True | Some j \<Rightarrow> py_len j \<noteq> None))"

text \<open>Sample worlds: a record with an export whose removal the operating system refuses;
  a saved record; the same with a clock that advances by a fifth of a second per reading;
  a record with exports of two sessions.\<close>

definition demo_export :: export_data where
  "demo_export =
     \<lparr>export_info = \<lparr>exported_at = ''new'', export_session_id = ''s1'', export_format = ''json'',
                      gdpr_compliant = True\<rparr>,
      personal_information = None,
      conversation_summary = \<lparr>total_messages = 0, summary_completion_status = ''incomplete''\<rparr>,
      privacy_notice = the_privacy_notice\<rparr>"

definition locked_export_world :: world where
  "locked_export_world =
     demo_world\<lparr>encrypted := [(''candidate_s1.json'', Unparseable)],
                exports := [(''export_s1_19700103_000000.json'', 172800000000, demo_export)],
                denied := {(OpRemove, ''data/exports/export_s1_19700103_000000.json'')}\<rparr>"

definition saved_world :: world where
  "saved_world =
     demo_world\<lparr>encrypted :=
       [(''candidate_s1.json'',
         Stored \<lparr>session_id = Some ''s1'', timestamp = Some ''new'', data_version = Some ''1.0'',
                 privacy_compliant = Some True, candidate_info = None, privacy_hashes = None,
                 metadata = None, conversation_history_encrypted = None,
                 conversation_history = None\<rparr>)]\<rparr>"

definition slow_clock_world :: world where
  "slow_clock_world = saved_world\<lparr>clock := (\<lambda>n. 172800000000 + int n * 200000)\<rparr>"

definition tidy_world :: world where
  "tidy_world =
     demo_world\<lparr>encrypted := [(''candidate_s1.json'', Unparseable)],
                exports := [(''export_s1_19700103_000000.json'', 172800000000, demo_export),
                            (''export_s2_19700103_000000.json'', 172800000000, demo_export)]\<rparr>"

subsection \<open>Vocabulary of the retention property\<close>








subsection \<open>Vocabulary of the report property\<close>

text \<open>The cleartext of a file content: the content with the four encrypted fields and the
  encrypted transcript blanked. Two worlds have the same cleartext when they agree on the
  clock, the audit log, the refused operations and, file by file, on names and cleartext;
  entropy and exports are free. \<open>content_date\<close> is the date a content carries.\<close>

definition cleartext :: "content \<Rightarrow> content" where
  "cleartext c =
     (case c of
        Unparseable \<Rightarrow> Unparseable
      | Stored data \<Rightarrow>
          Stored (data\<lparr>candidate_info :=
                          map_option (\<lambda>ci. ci\<lparr>full_name_encrypted := None,
                                                email_encrypted := None,
                                                phone_encrypted := None,
                                                current_location_encrypted := None\<rparr>)
                            (candidate_info data),
                        conversation_history_encrypted := None\<rparr>))"

definition same_cleartext :: "world \<Rightarrow> world \<Rightarrow> bool" where
  "same_cleartext w w' =
     (clock w' = clock w \<and> ticks w' = ticks w \<and> activity_log w' = activity_log w \<and>
      denied w' = denied w \<and>
      map (\<lambda>e. (fst e, cleartext (snd e))) (encrypted w') =
      map (\<lambda>e. (fst e, cleartext (snd e))) (encrypted w))"

definition content_date :: "libs \<Rightarrow> content \<Rightarrow> int option" where
  "content_date E c =
     (case c of
        Unparseable \<Rightarrow> None
      | Stored data \<Rightarrow>
          (case timestamp data of None \<Rightarrow> None | Some ts \<Rightarrow> fromisoformat E ts))"

text \<open>Sample records that carry a given ciphertext, a world built from them, and a handler
  with another key.\<close>

definition secret_record :: "string \<Rightarrow> string \<Rightarrow> content" where
  "secret_record ts secret =
     Stored \<lparr>session_id = Some ''s1'', timestamp = Some ts, data_version = Some ''1.0'',
             privacy_compliant = Some True,
             candidate_info = Some
               \<lparr>full_name_encrypted = Some secret, email_encrypted = Some secret,
                phone_encrypted = None, current_location_encrypted = Some secret,
                stored_years_experience = ''3'', stored_desired_positions = ''Engineer'',
                stored_tech_stack = [''Python'']\<rparr>,
             privacy_hashes = None, metadata = None,
             conversation_history_encrypted = Some secret, conversation_history = None\<rparr>"

definition report_world :: "string \<Rightarrow> world" where
  "report_world secret =
     demo_world\<lparr>rng := length secret,
                encrypted := [(''candidate_s1.json'', secret_record ''old'' secret),
                              (''candidate_bad.json'', Unparseable),
                              (''candidate_s2.json'', secret_record ''new'' (rev secret))],
                activity_log := Log [\<lparr>log_timestamp = ''old'', log_activity = ''SAVE'',
                                       log_session_id = ''s1'', log_metadata = []\<rparr>]\<rparr>"

definition other_handler :: data_handler where
  "other_handler = \<lparr>data_dir = ''data'', encryption_key = ''another key''\<rparr>"

section \<open>Verification\<close>

subsection \<open>Frame and helper lemmas\<close>

lemma decrypt_encrypt:
  assumes "cipher_ok E (encryption_key self)"
  shows "decrypt_data E self (fst (encrypt_data E self x w)) = x"
proof -
  from assms obtain tok where
    "fernet_encrypt E (encryption_key self) (rng w) x = Some tok"
    "b64decode E (b64encode E tok) = Some tok"
    "fernet_decrypt E (encryption_key self) tok = Some x"
    unfolding cipher_ok_def by blast
  then show ?thesis
    by (simp add: encrypt_data_def decrypt_data_def)
qed

lemma encrypt_nonempty:
  assumes "cipher_ok E (encryption_key self)"
  shows "fst (encrypt_data E self x w) \<noteq> []"
proof -
  from assms obtain tok where
    "fernet_encrypt E (encryption_key self) (rng w) x = Some tok"
    "b64encode E tok \<noteq> []"
    unfolding cipher_ok_def by blast
  then show ?thesis
    by (simp add: encrypt_data_def)
qed

lemma decrypt_encrypt_field:
  assumes "cipher_ok E (encryption_key self)"
  shows "decrypt_field E self (fst (encrypt_field E self x w)) = (if x = [] then None else Some x)"
  using decrypt_encrypt[OF assms] encrypt_nonempty[OF assms]
  by (simp add: encrypt_field_def decrypt_field_def split_beta)

lemma now_frame [simp]:
  "fst (now w) = clock w (ticks w)"
  "encrypted (snd (now w)) = encrypted w"
  "exports (snd (now w)) = exports w"
  "denied (snd (now w)) = denied w"
  "activity_log (snd (now w)) = activity_log w"
  "clock (snd (now w)) = clock w"
  "rng (snd (now w)) = rng w"
  "ticks (snd (now w)) = Suc (ticks w)"
  by (simp_all add: now_def)

lemma encrypt_data_frame [simp]:
  "encrypted (snd (encrypt_data E self x w)) = encrypted w"
  "exports (snd (encrypt_data E self x w)) = exports w"
  "denied (snd (encrypt_data E self x w)) = denied w"
  "activity_log (snd (encrypt_data E self x w)) = activity_log w"
  "clock (snd (encrypt_data E self x w)) = clock w"
  "ticks (snd (encrypt_data E self x w)) = ticks w"
  by (simp_all add: encrypt_data_def)

lemma encrypt_field_frame [simp]:
  "encrypted (snd (encrypt_field E self x w)) = encrypted w"
  "exports (snd (encrypt_field E self x w)) = exports w"
  "denied (snd (encrypt_field E self x w)) = denied w"
  "activity_log (snd (encrypt_field E self x w)) = activity_log w"
  "clock (snd (encrypt_field E self x w)) = clock w"
  "ticks (snd (encrypt_field E self x w)) = ticks w"
  by (simp_all add: encrypt_field_def split_beta)

lemma build_frame [simp]:
  "encrypted (snd (build_encrypted_data E self ci sid h ts w)) = encrypted w"
  "exports (snd (build_encrypted_data E self ci sid h ts w)) = exports w"
  "denied (snd (build_encrypted_data E self ci sid h ts w)) = denied w"
  "activity_log (snd (build_encrypted_data E self ci sid h ts w)) = activity_log w"
  "clock (snd (build_encrypted_data E self ci sid h ts w)) = clock w"
  "ticks (snd (build_encrypted_data E self ci sid h ts w)) = ticks w"
  by (simp_all add: build_encrypted_data_def split_beta split: option.splits)

lemma log_frame [simp]:
  "encrypted (log_data_activity E self a s m w) = encrypted w"
  "exports (log_data_activity E self a s m w) = exports w"
  "denied (log_data_activity E self a s m w) = denied w"
  "clock (log_data_activity E self a s m w) = clock w"
  "ticks (log_data_activity E self a s m w) = Suc (ticks w)"
  "rng (log_data_activity E self a s m w) = rng w"
  by (simp_all add: log_data_activity_def now_def Let_def split: log_file.splits option.splits)

lemma io_fails_frame [simp]:
  "io_fails (snd (now w)) = io_fails w"
  "io_fails (snd (encrypt_data E self x w)) = io_fails w"
  "io_fails (snd (encrypt_field E self x w)) = io_fails w"
  "io_fails (snd (build_encrypted_data E self ci sid h ts w)) = io_fails w"
  "io_fails (log_data_activity E self a s m w) = io_fails w"
  "io_fails (w\<lparr>encrypted := e\<rparr>) = io_fails w"
  "io_fails (w\<lparr>exports := ex\<rparr>) = io_fails w"
  by (simp_all add: io_fails_def fun_eq_iff)

lemma build_fields:
  "session_id (fst (build_encrypted_data E self ci sid h ts w)) = Some sid"
  "timestamp (fst (build_encrypted_data E self ci sid h ts w)) = Some (isoformat E ts)"
  "metadata (fst (build_encrypted_data E self ci sid h ts w)) =
     Some \<lparr>ip_address_hash = None, user_agent_hash = None, session_duration = None,
           completion_status = Some (if truthy h then ''complete'' else ''incomplete'')\<rparr>"
  "privacy_hashes (fst (build_encrypted_data E self ci sid h ts w)) =
     Some \<lparr>email_hash = (if email ci \<noteq> [] then Some (hash_email E (email ci)) else None),
           phone_hash = (if phone ci \<noteq> [] then Some (hash_phone E (phone ci)) else None)\<rparr>"
  "conversation_history (fst (build_encrypted_data E self ci sid h ts w)) = None"
  by (simp_all add: build_encrypted_data_def split_beta)

lemma build_info:
  "\<exists>w1 w2 w3 w4. candidate_info (fst (build_encrypted_data E self ci sid h ts w)) =
     Some \<lparr>full_name_encrypted = fst (encrypt_field E self (full_name ci) w1),
           email_encrypted = fst (encrypt_field E self (email ci) w2),
           phone_encrypted = fst (encrypt_field E self (phone ci) w3),
           current_location_encrypted = fst (encrypt_field E self (current_location ci) w4),
           stored_years_experience = years_experience ci,
           stored_desired_positions = desired_positions ci,
           stored_tech_stack = tech_stack ci\<rparr>"
  by (simp add: build_encrypted_data_def split_beta) blast

lemma save_ok:
  "fst (save_candidate_data E self ci sid history w) =
     (\<not> io_fails w OpWrite (encrypted_path self (candidate_filename sid)) \<and>
      \<not> io_fails w OpChmod (encrypted_path self (candidate_filename sid)))"
  by (simp add: save_candidate_data_def Let_def split_beta)

lemma save_file:
  "fst (save_candidate_data E self ci sid history w) \<Longrightarrow>
   map_of (encrypted (snd (save_candidate_data E self ci sid history w))) (candidate_filename sid) =
     Some (Stored (fst (build_encrypted_data E self ci sid history (clock w (ticks w)) (snd (now w)))))"
  by (simp add: save_candidate_data_def Let_def split_beta update_conv' split: if_splits)

lemma save_frame [simp]:
  "denied (snd (save_candidate_data E self ci sid history w)) = denied w"
  "exports (snd (save_candidate_data E self ci sid history w)) = exports w"
  "clock (snd (save_candidate_data E self ci sid history w)) = clock w"
  by (simp_all add: save_candidate_data_def Let_def split_beta)


subsection \<open>Encryption round trip\<close>

text \<open>
  Claim C7. For every string \<open>x\<close> (the empty one included) and a fixed key whose cipher
  keeps its contract, \<^verbatim>\<open>_decrypt_data(_encrypt_data(x))\<close> is \<open>x\<close>, whatever entropy the
  encryption draws.
\<close>

theorem decrypt_encrypt_identity:
  assumes "cipher_ok E (encryption_key self)"
  shows "decrypt_data E self (fst (encrypt_data E self x w)) = x"
  using assms by (rule decrypt_encrypt)

theorem decrypt_encrypt_identity_witness:
  "cipher_ok demo_libs (encryption_key demo_handler) \<and>
   decrypt_data demo_libs demo_handler
     (fst (encrypt_data demo_libs demo_handler ''a@b.com'' demo_world)) = ''a@b.com''"
proof -
  have k: "cipher_ok demo_libs (encryption_key demo_handler)"
    by (simp add: cipher_ok_def demo_libs_def demo_handler_def)
  show ?thesis
    using k decrypt_encrypt_identity[OF k, of "''a@b.com''" demo_world] by simp
qed

subsection \<open>The audit log is capped\<close>

lemma log_step_bound:
  "length (log_entries w) \<le> 1000 \<Longrightarrow>
   length (log_entries (log_data_activity E self a s m w)) \<le> 1000"
  by (auto simp add: log_data_activity_def log_entries_def now_def Let_def last_n_def
        split: log_file.splits)

lemma run_log_bound:
  "length (log_entries w) \<le> 1000 \<Longrightarrow> length (log_entries (run_log E self xs w)) \<le> 1000"
  by (induction xs arbitrary: w) (auto simp add: log_step_bound)

lemma log_step_full:
  assumes "activity_log w = Log acts" "length acts = 1000"
    and "\<not> io_fails w OpRead (log_path self)" "\<not> io_fails w OpWrite (log_path self)"
  shows "activity_log (log_data_activity E self a s m w) = Log (tl acts @ [new_log_entry E a s m w])"
  using assms
  by (cases acts) (simp_all add: log_data_activity_def now_def Let_def last_n_def new_log_entry_def io_fails_def)

text \<open>
  Claim C4. A log of at most 1000 entries still has at most 1000 entries after any sequence
  of logged activities. When the log holds exactly 1000 entries and its file can be read
  and written, logging one more activity leaves exactly 1000 entries: the oldest is gone
  and the new entry is the last one.
\<close>

theorem audit_log_capped:
  "(length (log_entries w) \<le> 1000 \<longrightarrow> length (log_entries (run_log E self xs w)) \<le> 1000) \<and>
   (activity_log w = Log acts \<and> length acts = 1000 \<and>
    \<not> io_fails w OpRead (log_path self) \<and> \<not> io_fails w OpWrite (log_path self) \<longrightarrow>
      activity_log (log_data_activity E self a s m w) = Log (tl acts @ [new_log_entry E a s m w]) \<and>
      length (log_entries (log_data_activity E self a s m w)) = 1000 \<and>
      last (log_entries (log_data_activity E self a s m w)) = new_log_entry E a s m w)"
proof (intro conjI impI)
  assume "length (log_entries w) \<le> 1000"
  then show "length (log_entries (run_log E self xs w)) \<le> 1000" by (rule run_log_bound)
next
  assume h: "activity_log w = Log acts \<and> length acts = 1000 \<and>
    \<not> io_fails w OpRead (log_path self) \<and> \<not> io_fails w OpWrite (log_path self)"
  then have st: "activity_log (log_data_activity E self a s m w) = Log (tl acts @ [new_log_entry E a s m w])"
    by (simp add: log_step_full)
  show "activity_log (log_data_activity E self a s m w) = Log (tl acts @ [new_log_entry E a s m w])"
    by (rule st)
  show "length (log_entries (log_data_activity E self a s m w)) = 1000"
    using h by (simp add: st log_entries_def)
  show "last (log_entries (log_data_activity E self a s m w)) = new_log_entry E a s m w"
    by (simp add: st log_entries_def)
qed

theorem audit_log_capped_witness:
  "length (log_entries full_log_world) \<le> 1000 \<and>
   length (log_entries (run_log demo_libs demo_handler
      [(''SAVE'', ''s2'', None), (''LOAD'', ''s2'', None)] full_log_world)) \<le> 1000 \<and>
   length (log_entries full_log_world) = 1000 \<and>
   length (log_entries (log_data_activity demo_libs demo_handler ''SAVE'' ''s2'' None full_log_world)) = 1000 \<and>
   last (log_entries (log_data_activity demo_libs demo_handler ''SAVE'' ''s2'' None full_log_world)) =
     \<lparr>log_timestamp = ''new'', log_activity = ''SAVE'', log_session_id = ''s2'', log_metadata = []\<rparr> \<and>
   hd (log_entries full_log_world) \<noteq>
     hd (log_entries (log_data_activity demo_libs demo_handler ''SAVE'' ''s2'' None full_log_world))"
proof -
  let ?acts = "\<lparr>log_timestamp = ''old'', log_activity = ''SAVE'', log_session_id = ''first'',
              log_metadata = []\<rparr> #
            replicate 999 \<lparr>log_timestamp = ''old'', log_activity = ''LOAD'',
                            log_session_id = ''s1'', log_metadata = []\<rparr>"
  have a: "activity_log full_log_world = Log ?acts"
    by (simp add: full_log_world_def)
  have l: "length ?acts = 1000" by simp
  have io: "\<not> io_fails full_log_world OpRead (log_path demo_handler)"
    "\<not> io_fails full_log_world OpWrite (log_path demo_handler)"
    by (simp_all add: io_fails_def full_log_world_def demo_world_def)
  have le: "length (log_entries full_log_world) \<le> 1000"
    by (simp add: log_entries_def a)
  have nw: "new_log_entry demo_libs ''SAVE'' ''s2'' None full_log_world =
     \<lparr>log_timestamp = ''new'', log_activity = ''SAVE'', log_session_id = ''s2'', log_metadata = []\<rparr>"
    by (simp add: new_log_entry_def full_log_world_def demo_world_def demo_libs_def)
  have tl999: "tl ?acts = \<lparr>log_timestamp = ''old'', log_activity = ''LOAD'',
                            log_session_id = ''s1'', log_metadata = []\<rparr> # replicate 998 \<lparr>log_timestamp = ''old'', log_activity = ''LOAD'',
                            log_session_id = ''s1'', log_metadata = []\<rparr>"
    by (simp add: replicate_Suc[symmetric] del: replicate_Suc)
  from audit_log_capped[of full_log_world demo_libs demo_handler
      "[(''SAVE'', ''s2'', None), (''LOAD'', ''s2'', None)]" ?acts "''SAVE''" "''s2''" None]
  show ?thesis
    using a l io le nw tl999 by (simp add: log_entries_def)
qed

subsection \<open>What a save stores and what the next load returns\<close>

lemma load_stored_gen:
  assumes "map_of (encrypted w) (candidate_filename sid) = Some (Stored f)"
    and "\<not> io_fails w OpRead (encrypted_path self (candidate_filename sid))"
    and "case conversation_history_encrypted f of
           None \<Rightarrow> True
         | Some c \<Rightarrow> json_loads E (decrypt_data E self c) \<noteq> None"
  shows "\<exists>d. fst (load_candidate_data E self sid w) = Some d \<and>
             session_id d = session_id f \<and> timestamp d = timestamp f \<and>
             metadata d = metadata f \<and> privacy_hashes d = privacy_hashes f \<and>
             candidate_info d =
               (case candidate_info f of
                  None \<Rightarrow> None
                | Some ci \<Rightarrow> Some
                    \<lparr>full_name = decrypt_field E self (full_name_encrypted ci),
                     email = decrypt_field E self (email_encrypted ci),
                     phone = decrypt_field E self (phone_encrypted ci),
                     years_experience = stored_years_experience ci,
                     desired_positions = stored_desired_positions ci,
                     current_location = decrypt_field E self (current_location_encrypted ci),
                     tech_stack = stored_tech_stack ci\<rparr>)"
  using assms by (auto simp add: load_candidate_data_def decrypt_record_def Let_def split: option.splits)

lemma build_history:
  "\<exists>w4. conversation_history_encrypted (fst (build_encrypted_data E self ci sid h ts w)) =
     (case h of
        None \<Rightarrow> None
      | Some ms \<Rightarrow> if ms \<noteq> [] then Some (fst (encrypt_data E self (json_dumps E (JArr ms)) w4))
                   else None)"
  by (auto simp add: build_encrypted_data_def split_beta split: option.splits)

lemma build_history_loads:
  assumes "transcript_ok E self h"
  shows "case conversation_history_encrypted (fst (build_encrypted_data E self ci sid h ts w)) of
           None \<Rightarrow> True
         | Some c \<Rightarrow> json_loads E (decrypt_data E self c) \<noteq> None"
proof -
  from build_history[of E self ci sid h ts w] obtain w4 where
    eq: "conversation_history_encrypted (fst (build_encrypted_data E self ci sid h ts w)) =
     (case h of
        None \<Rightarrow> None
      | Some ms \<Rightarrow> if ms \<noteq> [] then Some (fst (encrypt_data E self (json_dumps E (JArr ms)) w4))
                   else None)" by blast
  show ?thesis
    using assms unfolding eq
    by (auto simp add: transcript_ok_def decrypt_encrypt split: option.splits)
qed

lemma load_after_save:
  assumes wr: "\<not> io_fails w OpWrite (encrypted_path self (candidate_filename sid))"
            "\<not> io_fails w OpChmod (encrypted_path self (candidate_filename sid))"
    and rd: "\<not> io_fails w OpRead (encrypted_path self (candidate_filename sid))"
    and tr: "transcript_ok E self h"
  shows "\<exists>f d si. map_of (encrypted (snd (save_candidate_data E self ci sid h w)))
                     (candidate_filename sid) = Some (Stored f) \<and>
           f = fst (build_encrypted_data E self ci sid h (clock w (ticks w)) (snd (now w))) \<and>
           fst (load_candidate_data E self sid (snd (save_candidate_data E self ci sid h w))) = Some d \<and>
           candidate_info f = Some si \<and>
           session_id d = Some sid \<and>
           metadata d = metadata f \<and>
           candidate_info d = Some
                    \<lparr>full_name = decrypt_field E self (full_name_encrypted si),
                     email = decrypt_field E self (email_encrypted si),
                     phone = decrypt_field E self (phone_encrypted si),
                     years_experience = stored_years_experience si,
                     desired_positions = stored_desired_positions si,
                     current_location = decrypt_field E self (current_location_encrypted si),
                     tech_stack = stored_tech_stack si\<rparr>"
proof -
  let ?s = "save_candidate_data E self ci sid h w"
  let ?f = "fst (build_encrypted_data E self ci sid h (clock w (ticks w)) (snd (now w)))"
  have saved: "fst ?s" using wr by (simp add: save_ok)
  then have stored: "map_of (encrypted (snd ?s)) (candidate_filename sid) = Some (Stored ?f)"
    by (rule save_file)
  have rd': "\<not> io_fails (snd ?s) OpRead (encrypted_path self (candidate_filename sid))"
    using rd by (simp add: io_fails_def)
  from build_info[of E self ci sid h "clock w (ticks w)" "snd (now w)"]
  obtain si where si: "candidate_info ?f = Some si" by blast
  from load_stored_gen[OF stored rd' build_history_loads[OF tr]] obtain d where
    d: "fst (load_candidate_data E self sid (snd ?s)) = Some d"
       "session_id d = session_id ?f" "metadata d = metadata ?f"
       "candidate_info d =
               (case candidate_info ?f of
                  None \<Rightarrow> None
                | Some ci \<Rightarrow> Some
                    \<lparr>full_name = decrypt_field E self (full_name_encrypted ci),
                     email = decrypt_field E self (email_encrypted ci),
                     phone = decrypt_field E self (phone_encrypted ci),
                     years_experience = stored_years_experience ci,
                     desired_positions = stored_desired_positions ci,
                     current_location = decrypt_field E self (current_location_encrypted ci),
                     tech_stack = stored_tech_stack ci\<rparr>)"
    by blast
  have sid: "session_id d = Some sid" using d(2) by (simp add: build_fields)
  show ?thesis
    using stored d(1) si sid d(3) d(4) by (simp add: si)
qed

lemma encrypt_field_empty: "fst (encrypt_field E self [] w) = None"
  by (simp add: encrypt_field_def)

lemma build_info_empty:
  "\<exists>si. candidate_info (fst (build_encrypted_data E self ci sid h ts w)) = Some si \<and>
     (full_name ci = [] \<longrightarrow> full_name_encrypted si = None) \<and>
     (email ci = [] \<longrightarrow> email_encrypted si = None) \<and>
     (phone ci = [] \<longrightarrow> phone_encrypted si = None) \<and>
     (current_location ci = [] \<longrightarrow> current_location_encrypted si = None)"
  by (simp add: build_encrypted_data_def split_beta encrypt_field_def)

text \<open>
  Claim C10. When the record file can be written, restricted and read and the transcript
  (if any) survives storage, \<^verbatim>\<open>save_candidate_data\<close> stores a null for each of the four
  identifying fields that is the empty string, the following \<^verbatim>\<open>load_candidate_data\<close>
  returns \<^verbatim>\<open>None\<close> for that field, and the email and phone hashes are null when the
  email and the phone are empty.
\<close>

theorem empty_field_stored_as_null:
  assumes wr: "\<not> io_fails w OpWrite (encrypted_path self (candidate_filename sid))"
            "\<not> io_fails w OpChmod (encrypted_path self (candidate_filename sid))"
    and rd: "\<not> io_fails w OpRead (encrypted_path self (candidate_filename sid))"
    and tr: "transcript_ok E self h"
  shows "\<exists>f si ph d di.
           map_of (encrypted (snd (save_candidate_data E self ci sid h w)))
             (candidate_filename sid) = Some (Stored f) \<and>
           candidate_info f = Some si \<and> privacy_hashes f = Some ph \<and>
           fst (load_candidate_data E self sid (snd (save_candidate_data E self ci sid h w))) = Some d \<and>
           candidate_info d = Some di \<and>
           (full_name ci = [] \<longrightarrow> full_name_encrypted si = None \<and> full_name di = None) \<and>
           (email ci = [] \<longrightarrow> email_encrypted si = None \<and> email di = None \<and> email_hash ph = None) \<and>
           (phone ci = [] \<longrightarrow> phone_encrypted si = None \<and> phone di = None \<and> phone_hash ph = None) \<and>
           (current_location ci = [] \<longrightarrow>
              current_location_encrypted si = None \<and> current_location di = None)"
proof -
  let ?f = "fst (build_encrypted_data E self ci sid h (clock w (ticks w)) (snd (now w)))"
  from load_after_save[OF wr rd tr, of ci] obtain f d si where
    a: "map_of (encrypted (snd (save_candidate_data E self ci sid h w)))
                     (candidate_filename sid) = Some (Stored f)"
       "f = ?f"
       "fst (load_candidate_data E self sid (snd (save_candidate_data E self ci sid h w))) = Some d"
       "candidate_info f = Some si"
       "candidate_info d = Some
                    \<lparr>full_name = decrypt_field E self (full_name_encrypted si),
                     email = decrypt_field E self (email_encrypted si),
                     phone = decrypt_field E self (phone_encrypted si),
                     years_experience = stored_years_experience si,
                     desired_positions = stored_desired_positions si,
                     current_location = decrypt_field E self (current_location_encrypted si),
                     tech_stack = stored_tech_stack si\<rparr>"
    by blast
  from build_info_empty[of E self ci sid h "clock w (ticks w)" "snd (now w)"] a(2) a(4)
  have e: "(full_name ci = [] \<longrightarrow> full_name_encrypted si = None)"
     "(email ci = [] \<longrightarrow> email_encrypted si = None)"
     "(phone ci = [] \<longrightarrow> phone_encrypted si = None)"
     "(current_location ci = [] \<longrightarrow> current_location_encrypted si = None)"
    by simp_all
  have ph: "privacy_hashes f = Some
     \<lparr>email_hash = (if email ci \<noteq> [] then Some (hash_email E (email ci)) else None),
      phone_hash = (if phone ci \<noteq> [] then Some (hash_phone E (phone ci)) else None)\<rparr>"
    using a(2) by (simp add: build_fields)
  show ?thesis
    using a(1) a(3) a(4) a(5) e ph by (simp add: decrypt_field_def)
qed

theorem empty_field_stored_as_null_witness:
  "transcript_ok demo_libs demo_handler (Some [JNull, JNull]) \<and>
   (\<exists>f si ph d di.
           map_of (encrypted (snd (save_candidate_data demo_libs demo_handler blank_candidate ''s1''
                                     (Some [JNull, JNull]) demo_world)))
             (candidate_filename ''s1'') = Some (Stored f) \<and>
           candidate_info f = Some si \<and> privacy_hashes f = Some ph \<and>
           fst (load_candidate_data demo_libs demo_handler ''s1''
                  (snd (save_candidate_data demo_libs demo_handler blank_candidate ''s1''
                          (Some [JNull, JNull]) demo_world))) = Some d \<and>
           candidate_info d = Some di \<and>
           full_name_encrypted si = None \<and> full_name di = None \<and>
           email_encrypted si = None \<and> email di = None \<and> email_hash ph = None \<and>
           phone_encrypted si = None \<and> phone di = None \<and> phone_hash ph = None \<and>
           current_location_encrypted si = None \<and> current_location di = None)"
proof -
  have io: "\<not> io_fails demo_world OpWrite (encrypted_path demo_handler (candidate_filename ''s1''))"
    "\<not> io_fails demo_world OpChmod (encrypted_path demo_handler (candidate_filename ''s1''))"
    "\<not> io_fails demo_world OpRead (encrypted_path demo_handler (candidate_filename ''s1''))"
    by (simp_all add: io_fails_def demo_world_def)
  have tr: "transcript_ok demo_libs demo_handler (Some [JNull, JNull])"
    by (simp add: transcript_ok_def cipher_ok_def demo_libs_def demo_handler_def)
  show ?thesis
    using tr empty_field_stored_as_null[OF io tr, of blank_candidate]
    by (simp add: blank_candidate_def)
qed

subsection \<open>Deleting a session that was never saved\<close>

text \<open>
  Claim C8. For a session id with no stored record, \<^verbatim>\<open>delete_candidate_data\<close> returns
  \<open>False\<close> and leaves the whole world, the audit log included, as it was.
\<close>

theorem delete_unknown_session:
  assumes "map_of (encrypted w) (candidate_filename sid) = None"
  shows "delete_candidate_data E self sid reason w = (False, w)"
  using assms by (simp add: delete_candidate_data_def)

theorem delete_unknown_session_witness:
  "map_of (encrypted demo_world) (candidate_filename ''never-saved'') = None \<and>
   delete_candidate_data demo_libs demo_handler ''never-saved'' ''user_request'' demo_world
     = (False, demo_world)"
proof -
  have a: "map_of (encrypted demo_world) (candidate_filename ''never-saved'') = None"
    by (simp add: demo_world_def)
  show ?thesis using a delete_unknown_session[OF a] by simp
qed

subsection \<open>When a save fails\<close>





subsection \<open>Erasure\<close>

lemma rse_frame [simp]:
  "encrypted (snd (remove_session_exports self pat names w)) = encrypted w"
  "denied (snd (remove_session_exports self pat names w)) = denied w"
  "activity_log (snd (remove_session_exports self pat names w)) = activity_log w"
  "clock (snd (remove_session_exports self pat names w)) = clock w"
  "ticks (snd (remove_session_exports self pat names w)) = ticks w"
  by (induction self pat names w rule: remove_session_exports.induct; simp)+

lemma map_of_None_iff: "map_of al k = None \<longleftrightarrow> k \<notin> fst ` set al"
  by (simp add: map_of_eq_None_iff)

lemma keys_delete: "fst ` set (AList.delete k al) = fst ` set al - {k}"
  by (induction al) (auto simp add: AList.delete_eq)

lemma rse_result:
  assumes "distinct names" "set names \<subseteq> fst ` set (exports w)"
  shows "fst (remove_session_exports self pat names w) =
           (\<forall>f \<in> set names. prefix pat f \<longrightarrow> \<not> io_fails w OpRemove (exports_path self f))"
  using assms
proof (induction self pat names w rule: remove_session_exports.induct)
  case (1 self export_pattern w)
  then show ?case by simp
next
  case (2 self export_pattern export_file rest w)
  have rest: "distinct rest" "export_file \<notin> set rest" "set rest \<subseteq> fst ` set (exports w)"
    "export_file \<in> fst ` set (exports w)"
    using "2.prems" by auto
  have here: "map_of (exports w) export_file \<noteq> None"
    using rest(4) by (simp add: map_of_None_iff)
  have sub: "set rest \<subseteq> fst ` set (exports (w\<lparr>exports := AList.delete export_file (exports w)\<rparr>))"
    using rest by (auto simp add: keys_delete)
  show ?case
  proof (cases "prefix export_pattern export_file")
    case True
    show ?thesis
    proof (cases "io_fails w OpRemove (exports_path self export_file)")
      case True
      with \<open>prefix export_pattern export_file\<close> show ?thesis by auto
    next
      case False
      with True here "2.IH"(1)[OF True _ rest(1) sub] show ?thesis
        by (auto simp add: io_fails_def)
    qed
  next
    case False
    with "2.IH"(2)[OF False rest(1) rest(3)] show ?thesis by simp
  qed
qed

lemma rse_exports:
  assumes "fst (remove_session_exports self pat names w)"
  shows "exports (snd (remove_session_exports self pat names w)) =
           filter (\<lambda>e. \<not> (prefix pat (fst e) \<and> fst e \<in> set names)) (exports w)"
  using assms
proof (induction self pat names w rule: remove_session_exports.induct)
  case (1 self export_pattern w)
  then show ?case by simp
next
  case (2 self export_pattern export_file rest w)
  show ?case
  proof (cases "prefix export_pattern export_file")
    case True
    with "2.prems" have ok: "map_of (exports w) export_file \<noteq> None"
      "\<not> io_fails w OpRemove (exports_path self export_file)"
      by (auto split: if_splits)
    with True "2.prems" have
      "fst (remove_session_exports self export_pattern rest
              (w\<lparr>exports := AList.delete export_file (exports w)\<rparr>))"
      by simp
    from "2.IH"(1)[OF True _ this] ok True show ?thesis
      by (auto simp add: AList.delete_eq intro!: filter_cong)
  next
    case False
    with "2.prems" "2.IH"(2)[OF False] show ?thesis
      by (auto intro!: filter_cong)
  qed
qed

lemma delete_existing:
  assumes ex: "map_of (encrypted w) (candidate_filename sid) \<noteq> None"
    and dist: "distinct (map fst (exports w))"
  shows "fst (delete_candidate_data E self sid reason w) =
           (\<not> io_fails w OpRemove (encrypted_path self (candidate_filename sid)) \<and>
            \<not> io_fails w OpList (exports_dir self) \<and>
            (\<forall>f \<in> fst ` set (exports w). prefix (''export_'' @ sid @ ''_'') f \<longrightarrow>
                \<not> io_fails w OpRemove (exports_path self f)))"
proof -
  let ?w1 = "log_data_activity E self ''DELETE'' sid (Some [(''reason'', MStr reason)]) w"
  let ?w2 = "?w1\<lparr>encrypted := AList.delete (candidate_filename sid) (encrypted ?w1)\<rparr>"
  have d2: "distinct (map fst (exports ?w2))" "set (map fst (exports ?w2)) \<subseteq> fst ` set (exports ?w2)"
    using dist by simp_all
  have "fst (remove_session_exports self (''export_'' @ sid @ ''_'') (map fst (exports ?w2)) ?w2) =
          (\<forall>f \<in> fst ` set (exports w). prefix (''export_'' @ sid @ ''_'') f \<longrightarrow>
                \<not> io_fails w OpRemove (exports_path self f))"
    using rse_result[OF d2, of self "''export_'' @ sid @ ''_''"] by simp
  then show ?thesis
    using ex by (simp add: delete_candidate_data_def Let_def)
qed

lemma delete_removes_record:
  assumes "map_of (encrypted w) (candidate_filename sid) \<noteq> None"
    and "\<not> io_fails w OpRemove (encrypted_path self (candidate_filename sid))"
  shows "map_of (encrypted (snd (delete_candidate_data E self sid reason w)))
           (candidate_filename sid) = None"
  using assms by (simp add: delete_candidate_data_def Let_def delete_conv')

lemma delete_logs:
  assumes "map_of (encrypted w) (candidate_filename sid) \<noteq> None"
  shows "activity_log (snd (delete_candidate_data E self sid reason w)) =
           activity_log (log_data_activity E self ''DELETE'' sid (Some [(''reason'', MStr reason)]) w)"
  using assms by (simp add: delete_candidate_data_def Let_def)

lemma filter_listed:
  "filter (\<lambda>e. \<not> (P (fst e) \<and> fst e \<in> set (map fst xs))) xs = filter (\<lambda>e. \<not> P (fst e)) xs"
  by (rule filter_cong) auto

lemma delete_exports:
  assumes ex: "map_of (encrypted w) (candidate_filename sid) \<noteq> None"
    and ok: "fst (delete_candidate_data E self sid reason w)"
  shows "exports (snd (delete_candidate_data E self sid reason w)) =
           filter (\<lambda>e. \<not> prefix (''export_'' @ sid @ ''_'') (fst e)) (exports w)"
proof -
  let ?w1 = "log_data_activity E self ''DELETE'' sid (Some [(''reason'', MStr reason)]) w"
  let ?w2 = "?w1\<lparr>encrypted := AList.delete (candidate_filename sid) (encrypted ?w1)\<rparr>"
  let ?r = "remove_session_exports self (''export_'' @ sid @ ''_'') (map fst (exports ?w2)) ?w2"
  have eq: "delete_candidate_data E self sid reason w = ?r"
    using ex ok by (simp add: delete_candidate_data_def Let_def split: if_splits)
  then have "fst ?r" using ok by simp
  then have "exports (snd ?r) =
      filter (\<lambda>e. \<not> (prefix (''export_'' @ sid @ ''_'') (fst e) \<and> fst e \<in> set (map fst (exports ?w2))))
        (exports ?w2)"
    by (rule rse_exports)
  also have "\<dots> = filter (\<lambda>e. \<not> prefix (''export_'' @ sid @ ''_'') (fst e)) (exports ?w2)"
    by (rule filter_listed)
  finally have "exports (snd ?r) =
      filter (\<lambda>e. \<not> prefix (''export_'' @ sid @ ''_'') (fst e)) (exports ?w2)" .
  then show ?thesis by (simp add: eq)
qed

lemma map_of_filter_out:
  "P k \<Longrightarrow> map_of (filter (\<lambda>e. \<not> P (fst e)) al) k = None"
  by (auto simp add: map_of_eq_None_iff)

text \<open>
  Claim C3 says that \<^verbatim>\<open>delete_candidate_data\<close> returns success once the primary record
  is removed, even if the removal of an export artifact fails. It does not: the loop over
  the exports directory has no handler of its own, so the exception of \<^verbatim>\<open>os.remove\<close>
  reaches the outer \<^verbatim>\<open>except\<close> clause. In the sample world the record of session s1 exists
  and the removal of its export is refused: the method returns \<open>False\<close> although the
  record file is gone.
\<close>

theorem delete_fails_when_export_removal_fails:
  "map_of (encrypted locked_export_world) (candidate_filename ''s1'') \<noteq> None \<and>
   fst (delete_candidate_data demo_libs demo_handler ''s1'' ''user_request'' locked_export_world) = False \<and>
   encrypted (snd (delete_candidate_data demo_libs demo_handler ''s1'' ''user_request''
                     locked_export_world)) = []"
  by (simp add: delete_candidate_data_def log_data_activity_def now_def io_fails_def Let_def
        candidate_filename_def encrypted_path_def exports_path_def exports_dir_def log_path_def
        locked_export_world_def demo_world_def demo_handler_def demo_libs_def)

subsection \<open>Export\<close>

lemma load_fst:
  "fst (load_candidate_data E self sid w) =
     (case map_of (encrypted w) (candidate_filename sid) of
        None \<Rightarrow> None
      | Some c \<Rightarrow>
          if (OpRead, encrypted_path self (candidate_filename sid)) \<in> denied w then None
          else (case c of Unparseable \<Rightarrow> None | Stored f \<Rightarrow> decrypt_record E self f))"
  by (simp add: load_candidate_data_def Let_def io_fails_def split: option.splits content.splits)

lemma load_cong:
  "encrypted w' = encrypted w \<Longrightarrow> denied w' = denied w \<Longrightarrow>
   fst (load_candidate_data E self sid w') = fst (load_candidate_data E self sid w)"
  by (simp add: load_fst cong: option.case_cong)

lemma load_snd:
  "fst (load_candidate_data E self sid w) = Some d \<Longrightarrow>
   snd (load_candidate_data E self sid w) = log_data_activity E self ''LOAD'' sid None w"
  by (simp add: load_candidate_data_def Let_def split: option.splits content.splits if_splits)

lemma load_exists:
  "fst (load_candidate_data E self sid w) = Some d \<Longrightarrow>
   map_of (encrypted w) (candidate_filename sid) \<noteq> None"
  by (simp add: load_candidate_data_def Let_def split: option.splits)

lemma exportable_frame:
  "exportable E self sid w \<Longrightarrow> encrypted w' = encrypted w \<Longrightarrow> denied w' = denied w \<Longrightarrow>
   exportable E self sid w'"
  by (simp add: exportable_def load_cong[of w' w])

lemma exportable_exists:
  "exportable E self sid w \<Longrightarrow> map_of (encrypted w) (candidate_filename sid) \<noteq> None"
  by (auto simp add: exportable_def dest: load_exists split: option.splits)

lemma export_unfold:
  assumes d: "fst (load_candidate_data E self sid w) = Some d" "\<not> dict_empty d"
    and n: "(case conversation_history d of None \<Rightarrow> Some 0 | Some j \<Rightarrow> py_len j) = Some n"
    and wr: "\<not> io_fails w OpWrite (exports_path self (export_filename E sid (clock w (ticks w + 2))))"
  shows "\<exists>v w5. export_candidate_data E self sid fmt w =
           (Some (exports_path self (export_filename E sid (clock w (ticks w + 2)))),
            log_data_activity E self ''EXPORT'' sid (Some [(''format'', MStr fmt)]) w5) \<and>
           exports w5 = AList.update (export_filename E sid (clock w (ticks w + 2))) v (exports w) \<and>
           encrypted w5 = encrypted w \<and> denied w5 = denied w \<and> clock w5 = clock w \<and>
           ticks w5 = ticks w + 4"
proof -
  let ?w1 = "log_data_activity E self ''LOAD'' sid None w"
  let ?w2 = "snd (now ?w1)"
  let ?w3 = "snd (now ?w2)"
  let ?w4 = "snd (now ?w3)"
  have l: "load_candidate_data E self sid w = (Some d, ?w1)"
    using d(1) load_snd[OF d(1)] by (simp add: prod_eq_iff)
  have n2: "now ?w1 = (fst (now ?w1), ?w2)" "now ?w2 = (clock w (ticks w + 2), ?w3)"
    "now ?w3 = (fst (now ?w3), ?w4)"
    by (simp_all add: prod_eq_iff)
  have wr': "\<not> io_fails ?w3 OpWrite
               (exports_path self (export_filename E sid (clock w (ticks w + 2))))"
    using wr by simp
  have "\<exists>v. export_candidate_data E self sid fmt w =
           (Some (exports_path self (export_filename E sid (clock w (ticks w + 2)))),
            log_data_activity E self ''EXPORT'' sid (Some [(''format'', MStr fmt)])
              (?w4\<lparr>exports := AList.update (export_filename E sid (clock w (ticks w + 2))) v (exports ?w4)\<rparr>))"
    unfolding export_candidate_data_def l
    apply (simp only: prod.case option.case d(2) if_False n)
    apply (subst n2(1))
    apply (simp only: prod.case option.case n Let_def)
    apply (subst n2(2))
    apply (simp only: prod.case wr' if_False)
    apply (subst n2(3))
    apply (simp only: prod.case)
    apply (rule exI)
    apply (rule refl)
    done
  then obtain v where "export_candidate_data E self sid fmt w =
           (Some (exports_path self (export_filename E sid (clock w (ticks w + 2)))),
            log_data_activity E self ''EXPORT'' sid (Some [(''format'', MStr fmt)])
              (?w4\<lparr>exports := AList.update (export_filename E sid (clock w (ticks w + 2))) v (exports ?w4)\<rparr>))"
    by blast
  moreover have "exports (?w4\<lparr>exports := AList.update (export_filename E sid (clock w (ticks w + 2))) v (exports ?w4)\<rparr>)
       = AList.update (export_filename E sid (clock w (ticks w + 2))) v (exports w)"
    by simp
  moreover have "encrypted (?w4\<lparr>exports := AList.update (export_filename E sid (clock w (ticks w + 2))) v (exports ?w4)\<rparr>) = encrypted w"
    "denied (?w4\<lparr>exports := AList.update (export_filename E sid (clock w (ticks w + 2))) v (exports ?w4)\<rparr>) = denied w"
    "clock (?w4\<lparr>exports := AList.update (export_filename E sid (clock w (ticks w + 2))) v (exports ?w4)\<rparr>) = clock w"
    "ticks (?w4\<lparr>exports := AList.update (export_filename E sid (clock w (ticks w + 2))) v (exports ?w4)\<rparr>) = ticks w + 4"
    by simp_all
  ultimately show ?thesis by blast
qed

lemma export_ok:
  assumes ex: "exportable E self sid w"
    and wr: "\<not> io_fails w OpWrite (exports_path self (export_filename E sid (clock w (ticks w + 2))))"
  shows "fst (export_candidate_data E self sid fmt w) =
           Some (exports_path self (export_filename E sid (clock w (ticks w + 2))))"
    and "\<exists>v. exports (snd (export_candidate_data E self sid fmt w)) =
           AList.update (export_filename E sid (clock w (ticks w + 2))) v (exports w)"
    and "encrypted (snd (export_candidate_data E self sid fmt w)) = encrypted w"
    and "denied (snd (export_candidate_data E self sid fmt w)) = denied w"
    and "clock (snd (export_candidate_data E self sid fmt w)) = clock w"
    and "ticks (snd (export_candidate_data E self sid fmt w)) = ticks w + 5"
proof -
  from ex obtain d where d: "fst (load_candidate_data E self sid w) = Some d"
    "\<not> dict_empty d"
    "(case conversation_history d of None \<Rightarrow> Some 0 | Some j \<Rightarrow> py_len j) \<noteq> None"
    by (auto simp add: exportable_def split: option.splits)
  then obtain n where n: "(case conversation_history d of None \<Rightarrow> Some 0 | Some j \<Rightarrow> py_len j) = Some n"
    by blast
  from export_unfold[OF d(1) d(2) n wr, of fmt] obtain v w5 where
    u: "export_candidate_data E self sid fmt w =
           (Some (exports_path self (export_filename E sid (clock w (ticks w + 2)))),
            log_data_activity E self ''EXPORT'' sid (Some [(''format'', MStr fmt)]) w5)"
       "exports w5 = AList.update (export_filename E sid (clock w (ticks w + 2))) v (exports w)"
       "encrypted w5 = encrypted w" "denied w5 = denied w" "clock w5 = clock w"
       "ticks w5 = ticks w + 4"
    by blast
  show "fst (export_candidate_data E self sid fmt w) =
           Some (exports_path self (export_filename E sid (clock w (ticks w + 2))))"
    by (simp add: u(1))
  show "\<exists>v. exports (snd (export_candidate_data E self sid fmt w)) =
           AList.update (export_filename E sid (clock w (ticks w + 2))) v (exports w)"
    unfolding u(1) using u(2) by (intro exI[of _ v]) simp
  show "encrypted (snd (export_candidate_data E self sid fmt w)) = encrypted w"
    by (simp add: u)
  show "denied (snd (export_candidate_data E self sid fmt w)) = denied w"
    by (simp add: u)
  show "clock (snd (export_candidate_data E self sid fmt w)) = clock w"
    by (simp add: u)
  show "ticks (snd (export_candidate_data E self sid fmt w)) = ticks w + 5"
    by (simp add: u)
qed

lemma export_filename_prefix: "prefix (''export_'' @ sid @ ''_'') (export_filename E sid t)"
  by (simp add: export_filename_def)

lemma export_filename_eq:
  "export_filename E sid t1 = export_filename E sid t2 \<longleftrightarrow>
   strftime E (t1 div 1000000) = strftime E (t2 div 1000000)"
  by (simp add: export_filename_def)

lemma exportable_saved_world: "exportable demo_libs demo_handler ''s1'' saved_world"
  by (simp add: exportable_def load_fst decrypt_record_def dict_empty_def candidate_filename_def
        saved_world_def demo_world_def Let_def)

lemma exportable_slow_clock_world: "exportable demo_libs demo_handler ''s1'' slow_clock_world"
  by (simp add: exportable_def load_fst decrypt_record_def dict_empty_def candidate_filename_def
        slow_clock_world_def saved_world_def demo_world_def Let_def)

text \<open>
  Claim C6 says that two exports of a session give two distinct artifacts, the file name
  being unique per call. The file name carries the clock reading to the second only: two
  exports within the same second write the same file, and one artifact is left.
\<close>

theorem two_exports_same_second_one_artifact:
  "fst (export_candidate_data demo_libs demo_handler ''s1'' ''json'' saved_world) =
     Some ''data/exports/export_s1_19700103_000000.json'' \<and>
   fst (export_candidate_data demo_libs demo_handler ''s1'' ''json''
          (snd (export_candidate_data demo_libs demo_handler ''s1'' ''json'' saved_world))) =
     Some ''data/exports/export_s1_19700103_000000.json'' \<and>
   map fst (exports (snd (export_candidate_data demo_libs demo_handler ''s1'' ''json''
          (snd (export_candidate_data demo_libs demo_handler ''s1'' ''json'' saved_world))))) =
     [''export_s1_19700103_000000.json'']"
proof -
  let ?e1 = "export_candidate_data demo_libs demo_handler ''s1'' ''json'' saved_world"
  let ?e2 = "export_candidate_data demo_libs demo_handler ''s1'' ''json'' (snd ?e1)"
  have n: "export_filename demo_libs ''s1'' (clock saved_world (ticks saved_world + 2)) =
             ''export_s1_19700103_000000.json''"
    "export_filename demo_libs ''s1'' (clock saved_world (ticks saved_world + 5 + 2)) =
             ''export_s1_19700103_000000.json''"
    by (simp_all add: export_filename_def demo_libs_def saved_world_def demo_world_def)
  have p: "exports_path demo_handler ''export_s1_19700103_000000.json'' =
             ''data/exports/export_s1_19700103_000000.json''"
    by (simp add: exports_path_def demo_handler_def)
  have wr: "\<not> io_fails saved_world OpWrite q" for q
    by (simp add: io_fails_def saved_world_def demo_world_def)
  note e1 = export_ok[OF exportable_saved_world wr, of "''json''", unfolded n]
  have ex1: "exportable demo_libs demo_handler ''s1'' (snd ?e1)"
    by (rule exportable_frame[OF exportable_saved_world e1(3) e1(4)])
  have wr1: "\<not> io_fails (snd ?e1) OpWrite q" for q
    using wr e1(4) by (simp add: io_fails_def)
  note e2 = export_ok[OF ex1 wr1, of "''json''", unfolded e1(5) e1(6) n]
  from e1(2) obtain v1 where v1: "exports (snd ?e1) = [(''export_s1_19700103_000000.json'', v1)]"
    by (auto simp add: saved_world_def demo_world_def)
  from e2(2) obtain v2 where v2: "exports (snd ?e2) = [(''export_s1_19700103_000000.json'', v2)]"
    by (auto simp add: v1)
  show ?thesis
    using e1(1) e2(1) by (simp add: p v2)
qed

text \<open>
  Claim C6, amended. For a session that can be exported, on a file system that refuses no
  write and no removal, two exports in a row return the paths of the files named after
  the third clock reading of each call; the two names are equal exactly when the two
  readings give the same second-resolution stamp; both files are in the exports directory
  afterwards, and \<^verbatim>\<open>delete_candidate_data\<close> then succeeds and removes the record and both
  files.
\<close>

theorem two_exports_then_delete:
  assumes ex: "exportable E self sid w"
    and dist: "distinct (map fst (exports w))"
    and wr: "\<forall>p. \<not> io_fails w OpWrite p"
    and rm: "\<forall>p. \<not> io_fails w OpRemove p"
    and ls: "\<not> io_fails w OpList (exports_dir self)"
  shows "let n1 = export_filename E sid (clock w (ticks w + 2));
             n2 = export_filename E sid (clock w (ticks w + 7));
             w1 = snd (export_candidate_data E self sid fmt w);
             w2 = snd (export_candidate_data E self sid fmt w1);
             w3 = snd (delete_candidate_data E self sid reason w2)
         in fst (export_candidate_data E self sid fmt w) = Some (exports_path self n1) \<and>
            fst (export_candidate_data E self sid fmt w1) = Some (exports_path self n2) \<and>
            (n1 = n2 \<longleftrightarrow>
               strftime E (clock w (ticks w + 2) div 1000000) =
               strftime E (clock w (ticks w + 7) div 1000000)) \<and>
            map_of (exports w2) n1 \<noteq> None \<and> map_of (exports w2) n2 \<noteq> None \<and>
            fst (delete_candidate_data E self sid reason w2) \<and>
            map_of (encrypted w3) (candidate_filename sid) = None \<and>
            map_of (exports w3) n1 = None \<and> map_of (exports w3) n2 = None"
proof -
  let ?n1 = "export_filename E sid (clock w (ticks w + 2))"
  let ?n2 = "export_filename E sid (clock w (ticks w + 7))"
  let ?e1 = "export_candidate_data E self sid fmt w"
  let ?e2 = "export_candidate_data E self sid fmt (snd ?e1)"
  let ?d = "delete_candidate_data E self sid reason (snd ?e2)"
  have wr0: "\<not> io_fails w OpWrite (exports_path self ?n1)" using wr by blast
  note e1 = export_ok[OF ex wr0, of fmt]
  have ex1: "exportable E self sid (snd ?e1)"
    by (rule exportable_frame[OF ex e1(3) e1(4)])
  have t7: "clock (snd ?e1) (ticks (snd ?e1) + 2) = clock w (ticks w + 7)"
    by (simp add: e1(5) e1(6) add.commute)
  have wr1: "\<not> io_fails (snd ?e1) OpWrite
               (exports_path self (export_filename E sid (clock (snd ?e1) (ticks (snd ?e1) + 2))))"
    using wr e1(4) by (simp add: io_fails_def)
  note e2 = export_ok[OF ex1 wr1, of fmt, unfolded t7]
  from e1(2) obtain v1 where v1: "exports (snd ?e1) = AList.update ?n1 v1 (exports w)" by blast
  from e2(2) obtain v2 where v2: "exports (snd ?e2) = AList.update ?n2 v2 (exports (snd ?e1))"
    by blast
  have in1: "map_of (exports (snd ?e2)) ?n1 \<noteq> None"
    by (simp add: v1 v2 update_conv')
  have in2: "map_of (exports (snd ?e2)) ?n2 \<noteq> None"
    by (simp add: v2 update_conv')
  have dist2: "distinct (map fst (exports (snd ?e2)))"
    using dist by (simp add: v1 v2 distinct_update)
  have rec: "map_of (encrypted (snd ?e2)) (candidate_filename sid) \<noteq> None"
    using exportable_exists[OF ex] by (simp add: e1(3) e2(3))
  have den: "denied (snd ?e2) = denied w" by (simp add: e1(4) e2(4))
  have ok: "fst ?d"
    using rm ls by (simp add: delete_existing[OF rec dist2] io_fails_def den)
  have gone: "map_of (encrypted (snd ?d)) (candidate_filename sid) = None"
    using rm by (intro delete_removes_record[OF rec]) (simp add: io_fails_def den)
  have out: "map_of (exports (snd ?d)) ?n1 = None" "map_of (exports (snd ?d)) ?n2 = None"
    unfolding delete_exports[OF rec ok]
    by (rule map_of_filter_out[where P = "prefix (''export_'' @ sid @ ''_'')"],
        rule export_filename_prefix)+
  show ?thesis
    unfolding Let_def
    using e1(1) e2(1) in1 in2 ok gone out export_filename_eq[of E sid] by blast
qed

theorem two_exports_then_delete_witness:
  "exportable demo_libs demo_handler ''s1'' slow_clock_world \<and>
   export_filename demo_libs ''s1'' (clock slow_clock_world (ticks slow_clock_world + 2)) \<noteq>
   export_filename demo_libs ''s1'' (clock slow_clock_world (ticks slow_clock_world + 7)) \<and>
   (let n1 = export_filename demo_libs ''s1'' (clock slow_clock_world (ticks slow_clock_world + 2));
        n2 = export_filename demo_libs ''s1'' (clock slow_clock_world (ticks slow_clock_world + 7));
        w1 = snd (export_candidate_data demo_libs demo_handler ''s1'' ''json'' slow_clock_world);
        w2 = snd (export_candidate_data demo_libs demo_handler ''s1'' ''json'' w1);
        w3 = snd (delete_candidate_data demo_libs demo_handler ''s1'' ''user_request'' w2)
    in fst (export_candidate_data demo_libs demo_handler ''s1'' ''json'' slow_clock_world) =
         Some (exports_path demo_handler n1) \<and>
       fst (export_candidate_data demo_libs demo_handler ''s1'' ''json'' w1) =
         Some (exports_path demo_handler n2) \<and>
       map_of (exports w2) n1 \<noteq> None \<and> map_of (exports w2) n2 \<noteq> None \<and>
       fst (delete_candidate_data demo_libs demo_handler ''s1'' ''user_request'' w2) \<and>
       map_of (encrypted w3) (candidate_filename ''s1'') = None \<and>
       map_of (exports w3) n1 = None \<and> map_of (exports w3) n2 = None)"
proof -
  have h: "distinct (map fst (exports slow_clock_world))"
    "\<forall>p. \<not> io_fails slow_clock_world OpWrite p"
    "\<forall>p. \<not> io_fails slow_clock_world OpRemove p"
    "\<not> io_fails slow_clock_world OpList (exports_dir demo_handler)"
    by (simp_all add: io_fails_def slow_clock_world_def saved_world_def demo_world_def)
  have ne: "export_filename demo_libs ''s1'' (clock slow_clock_world (ticks slow_clock_world + 2)) \<noteq>
   export_filename demo_libs ''s1'' (clock slow_clock_world (ticks slow_clock_world + 7))"
    by (simp add: export_filename_def demo_libs_def slow_clock_world_def saved_world_def
          demo_world_def)
  show ?thesis
    using exportable_slow_clock_world ne
      two_exports_then_delete[OF exportable_slow_clock_world h, of "''json''" "''user_request''"]
    by (simp add: Let_def)
qed

subsection \<open>Save followed by load\<close>

lemma decrypt_record_history:
  "decrypt_record E self f = Some d \<Longrightarrow> conversation_history_encrypted f = Some c \<Longrightarrow>
   conversation_history d = json_loads E (decrypt_data E self c)"
  by (auto simp add: decrypt_record_def Let_def split: option.splits)

lemma load_after_save_transcript:
  assumes wr: "\<not> io_fails w OpWrite (encrypted_path self (candidate_filename sid))"
            "\<not> io_fails w OpChmod (encrypted_path self (candidate_filename sid))"
    and rd: "\<not> io_fails w OpRead (encrypted_path self (candidate_filename sid))"
    and tr: "transcript_ok E self (Some ms)" and ne: "ms \<noteq> []"
    and d: "fst (load_candidate_data E self sid (snd (save_candidate_data E self ci sid (Some ms) w))) = Some d"
  shows "conversation_history d = Some (JArr ms)"
proof -
  let ?s = "save_candidate_data E self ci sid (Some ms) w"
  let ?f = "fst (build_encrypted_data E self ci sid (Some ms) (clock w (ticks w)) (snd (now w)))"
  have saved: "fst ?s" using wr by (simp add: save_ok)
  then have stored: "map_of (encrypted (snd ?s)) (candidate_filename sid) = Some (Stored ?f)"
    by (rule save_file)
  have dr: "decrypt_record E self ?f = Some d"
    using d rd by (simp add: load_fst stored io_fails_def)
  from build_history[of E self ci sid "Some ms" "clock w (ticks w)" "snd (now w)"] ne
  obtain w4 where c: "conversation_history_encrypted ?f =
      Some (fst (encrypt_data E self (json_dumps E (JArr ms)) w4))"
    by auto
  from tr ne have k: "cipher_ok E (encryption_key self)"
    "json_loads E (json_dumps E (JArr ms)) = Some (JArr ms)"
    by (simp_all add: transcript_ok_def)
  show ?thesis
    using decrypt_record_history[OF dr c] by (simp add: decrypt_encrypt[OF k(1)] k(2))
qed

text \<open>
  Claim C1. A valid candidate record is one whose four identifying fields are not empty.
  For every such record, every session id and every transcript that survives storage,
  with a cipher that keeps its contract and a record file that can be written, restricted
  and read, \<^verbatim>\<open>save_candidate_data\<close> succeeds and the following \<^verbatim>\<open>load_candidate_data\<close>
  returns a dictionary whose \<^verbatim>\<open>candidate_info\<close> has the four identifying fields decrypted
  to their original values and the three plaintext fields unchanged, whose transcript is
  the one that was saved, and whose completion status is \<^verbatim>\<open>incomplete\<close> when no transcript
  was provided and \<^verbatim>\<open>complete\<close> when one was.
\<close>

theorem save_load_roundtrip:
  assumes ok: "cipher_ok E (encryption_key self)"
    and ne: "full_name r \<noteq> []" "email r \<noteq> []" "phone r \<noteq> []" "current_location r \<noteq> []"
    and tr: "transcript_ok E self h"
    and wr: "\<not> io_fails w OpWrite (encrypted_path self (candidate_filename sid))"
            "\<not> io_fails w OpChmod (encrypted_path self (candidate_filename sid))"
    and rd: "\<not> io_fails w OpRead (encrypted_path self (candidate_filename sid))"
  shows "fst (save_candidate_data E self r sid h w) \<and>
         (\<exists>d. fst (load_candidate_data E self sid (snd (save_candidate_data E self r sid h w))) = Some d \<and>
             candidate_info d = Some
               \<lparr>full_name = Some (full_name r), email = Some (email r), phone = Some (phone r),
                years_experience = years_experience r, desired_positions = desired_positions r,
                current_location = Some (current_location r), tech_stack = tech_stack r\<rparr> \<and>
             session_id d = Some sid \<and>
             (\<forall>ms. h = Some ms \<and> ms \<noteq> [] \<longrightarrow> conversation_history d = Some (JArr ms)) \<and>
             map_option completion_status (metadata d) =
               Some (Some (if truthy h then ''complete'' else ''incomplete'')) \<and>
             (h = None \<longrightarrow>
                map_option completion_status (metadata d) = Some (Some ''incomplete'')))"
proof -
  let ?s = "save_candidate_data E self r sid h w"
  let ?f = "fst (build_encrypted_data E self r sid h (clock w (ticks w)) (snd (now w)))"
  have saved: "fst ?s" using wr by (simp add: save_ok)
  from load_after_save[OF wr rd tr, of r] obtain d si where
    a: "fst (load_candidate_data E self sid (snd ?s)) = Some d"
       "candidate_info ?f = Some si"
       "session_id d = Some sid"
       "metadata d = metadata ?f"
       "candidate_info d = Some
                    \<lparr>full_name = decrypt_field E self (full_name_encrypted si),
                     email = decrypt_field E self (email_encrypted si),
                     phone = decrypt_field E self (phone_encrypted si),
                     years_experience = stored_years_experience si,
                     desired_positions = stored_desired_positions si,
                     current_location = decrypt_field E self (current_location_encrypted si),
                     tech_stack = stored_tech_stack si\<rparr>"
    by blast
  from build_info[of E self r sid h "clock w (ticks w)" "snd (now w)"]
  obtain w1 w2 w3 w4 where
    ci: "candidate_info ?f =
     Some \<lparr>full_name_encrypted = fst (encrypt_field E self (full_name r) w1),
           email_encrypted = fst (encrypt_field E self (email r) w2),
           phone_encrypted = fst (encrypt_field E self (phone r) w3),
           current_location_encrypted = fst (encrypt_field E self (current_location r) w4),
           stored_years_experience = years_experience r,
           stored_desired_positions = desired_positions r,
           stored_tech_stack = tech_stack r\<rparr>"
    by blast
  have si: "si = \<lparr>full_name_encrypted = fst (encrypt_field E self (full_name r) w1),
           email_encrypted = fst (encrypt_field E self (email r) w2),
           phone_encrypted = fst (encrypt_field E self (phone r) w3),
           current_location_encrypted = fst (encrypt_field E self (current_location r) w4),
           stored_years_experience = years_experience r,
           stored_desired_positions = desired_positions r,
           stored_tech_stack = tech_stack r\<rparr>"
    using a(2) ci by simp
  have info: "candidate_info d = Some
               \<lparr>full_name = Some (full_name r), email = Some (email r), phone = Some (phone r),
                years_experience = years_experience r, desired_positions = desired_positions r,
                current_location = Some (current_location r), tech_stack = tech_stack r\<rparr>"
    using ne by (simp add: a(5) si decrypt_encrypt_field[OF ok])
  have meta: "map_option completion_status (metadata d) =
               Some (Some (if truthy h then ''complete'' else ''incomplete''))"
    by (simp add: a(4) build_fields)
  have meta0: "h = None \<longrightarrow>
                map_option completion_status (metadata d) = Some (Some ''incomplete'')"
    by (simp add: meta truthy_def)
  have hist: "\<forall>ms. h = Some ms \<and> ms \<noteq> [] \<longrightarrow> conversation_history d = Some (JArr ms)"
  proof (intro allI impI)
    fix ms assume m: "h = Some ms \<and> ms \<noteq> []"
    then have tr': "transcript_ok E self (Some ms)" and ne': "ms \<noteq> []" using tr by simp_all
    have d': "fst (load_candidate_data E self sid
                (snd (save_candidate_data E self r sid (Some ms) w))) = Some d"
      using a(1) m by simp
    show "conversation_history d = Some (JArr ms)"
      by (rule load_after_save_transcript[OF wr rd tr' ne' d'])
  qed
  show ?thesis
    using saved a(1) a(3) info meta meta0 hist by blast
qed

theorem save_load_roundtrip_witness:
  "cipher_ok demo_libs (encryption_key demo_handler) \<and>
   transcript_ok demo_libs demo_handler None \<and>
   transcript_ok demo_libs demo_handler (Some [JNull, JNull]) \<and>
   fst (save_candidate_data demo_libs demo_handler demo_candidate ''s1'' None demo_world) \<and>
   (\<exists>d. fst (load_candidate_data demo_libs demo_handler ''s1''
              (snd (save_candidate_data demo_libs demo_handler demo_candidate ''s1'' None demo_world))) = Some d \<and>
        candidate_info d = Some
          \<lparr>full_name = Some ''Ada Lovelace'', email = Some ''a@b.com'', phone = Some ''555-123-4567'',
           years_experience = ''3'', desired_positions = ''Engineer'',
           current_location = Some ''London'', tech_stack = [''Python'', ''Docker'']\<rparr> \<and>
        session_id d = Some ''s1'' \<and>
        map_option completion_status (metadata d) = Some (Some ''incomplete'')) \<and>
   fst (save_candidate_data demo_libs demo_handler demo_candidate ''s1'' (Some [JNull, JNull])
          demo_world) \<and>
   (\<exists>d. fst (load_candidate_data demo_libs demo_handler ''s1''
              (snd (save_candidate_data demo_libs demo_handler demo_candidate ''s1''
                      (Some [JNull, JNull]) demo_world))) = Some d \<and>
        candidate_info d = Some
          \<lparr>full_name = Some ''Ada Lovelace'', email = Some ''a@b.com'', phone = Some ''555-123-4567'',
           years_experience = ''3'', desired_positions = ''Engineer'',
           current_location = Some ''London'', tech_stack = [''Python'', ''Docker'']\<rparr> \<and>
        session_id d = Some ''s1'' \<and>
        conversation_history d = Some (JArr [JNull, JNull]) \<and>
        map_option completion_status (metadata d) = Some (Some ''complete''))"
proof -
  have k: "cipher_ok demo_libs (encryption_key demo_handler)"
    by (simp add: cipher_ok_def demo_libs_def demo_handler_def)
  have ne: "full_name demo_candidate \<noteq> []" "email demo_candidate \<noteq> []"
    "phone demo_candidate \<noteq> []" "current_location demo_candidate \<noteq> []"
    by (simp_all add: demo_candidate_def)
  have t0: "transcript_ok demo_libs demo_handler None"
    by (simp add: transcript_ok_def)
  have t2: "transcript_ok demo_libs demo_handler (Some [JNull, JNull])"
    by (simp add: transcript_ok_def cipher_ok_def demo_libs_def demo_handler_def)
  have io: "\<not> io_fails demo_world OpWrite (encrypted_path demo_handler (candidate_filename ''s1''))"
    "\<not> io_fails demo_world OpChmod (encrypted_path demo_handler (candidate_filename ''s1''))"
    "\<not> io_fails demo_world OpRead (encrypted_path demo_handler (candidate_filename ''s1''))"
    by (simp_all add: io_fails_def demo_world_def)
  have a: "fst (save_candidate_data demo_libs demo_handler demo_candidate ''s1'' None demo_world) \<and>
   (\<exists>d. fst (load_candidate_data demo_libs demo_handler ''s1''
              (snd (save_candidate_data demo_libs demo_handler demo_candidate ''s1'' None demo_world))) = Some d \<and>
        candidate_info d = Some
          \<lparr>full_name = Some ''Ada Lovelace'', email = Some ''a@b.com'', phone = Some ''555-123-4567'',
           years_experience = ''3'', desired_positions = ''Engineer'',
           current_location = Some ''London'', tech_stack = [''Python'', ''Docker'']\<rparr> \<and>
        session_id d = Some ''s1'' \<and>
        map_option completion_status (metadata d) = Some (Some ''incomplete''))"
    using save_load_roundtrip[OF k ne t0 io] by (simp add: demo_candidate_def truthy_def)
  have b: "fst (save_candidate_data demo_libs demo_handler demo_candidate ''s1'' (Some [JNull, JNull])
          demo_world) \<and>
   (\<exists>d. fst (load_candidate_data demo_libs demo_handler ''s1''
              (snd (save_candidate_data demo_libs demo_handler demo_candidate ''s1''
                      (Some [JNull, JNull]) demo_world))) = Some d \<and>
        candidate_info d = Some
          \<lparr>full_name = Some ''Ada Lovelace'', email = Some ''a@b.com'', phone = Some ''555-123-4567'',
           years_experience = ''3'', desired_positions = ''Engineer'',
           current_location = Some ''London'', tech_stack = [''Python'', ''Docker'']\<rparr> \<and>
        session_id d = Some ''s1'' \<and>
        conversation_history d = Some (JArr [JNull, JNull]) \<and>
        map_option completion_status (metadata d) = Some (Some ''complete''))"
    using save_load_roundtrip[OF k ne t2 io] by (simp add: demo_candidate_def truthy_def)
  show ?thesis using k t0 t2 a b by blast
qed

subsection \<open>Erasure of a stored session\<close>

text \<open>
  Claim C3, amended. For a session with a stored record (and a directory whose file names
  are distinct), \<^verbatim>\<open>delete_candidate_data\<close> returns success exactly when the record file,
  the listing of the exports directory and every export artifact of the session
  (file name prefix \<^verbatim>\<open>export_{session_id}_\<close>) can be removed. When the record file can be
  removed it is gone afterwards, whatever the result. On success the exports directory
  holds exactly the files it held before without those of the session. Whatever the
  result, the audit log is what \<^verbatim>\<open>_log_data_activity\<close> with the activity \<^verbatim>\<open>DELETE\<close> left:
  with a log file that can be read and written and holds fewer than 1000 entries, the
  old entries followed by the new one; a log file that is malformed, cannot be written
  or exists and cannot be read stays as it was.
\<close>

theorem delete_success_iff_all_removed:
  assumes "map_of (encrypted w) (candidate_filename sid) \<noteq> None"
    and "distinct (map fst (exports w))"
  shows "fst (delete_candidate_data E self sid reason w) =
           (\<not> io_fails w OpRemove (encrypted_path self (candidate_filename sid)) \<and>
            \<not> io_fails w OpList (exports_dir self) \<and>
            (\<forall>f \<in> fst ` set (exports w). prefix (''export_'' @ sid @ ''_'') f \<longrightarrow>
                \<not> io_fails w OpRemove (exports_path self f))) \<and>
         (\<not> io_fails w OpRemove (encrypted_path self (candidate_filename sid)) \<longrightarrow>
            map_of (encrypted (snd (delete_candidate_data E self sid reason w)))
              (candidate_filename sid) = None) \<and>
         (fst (delete_candidate_data E self sid reason w) \<longrightarrow>
            exports (snd (delete_candidate_data E self sid reason w)) =
              filter (\<lambda>e. \<not> prefix (''export_'' @ sid @ ''_'') (fst e)) (exports w)) \<and>
         activity_log (snd (delete_candidate_data E self sid reason w)) =
           activity_log (log_data_activity E self ''DELETE'' sid
                           (Some [(''reason'', MStr reason)]) w) \<and>
         (\<not> io_fails w OpRead (log_path self) \<and> \<not> io_fails w OpWrite (log_path self) \<and>
          activity_log w \<noteq> BadLog \<and> length (log_entries w) < 1000 \<longrightarrow>
            log_entries (snd (delete_candidate_data E self sid reason w)) =
              log_entries w @ [new_log_entry E ''DELETE'' sid (Some [(''reason'', MStr reason)]) w]) \<and>
         (activity_log w = BadLog \<or> io_fails w OpWrite (log_path self) \<or>
          (activity_log w \<noteq> NoLog \<and> io_fails w OpRead (log_path self)) \<longrightarrow>
            activity_log (snd (delete_candidate_data E self sid reason w)) = activity_log w)"
proof -
  have l: "activity_log (snd (delete_candidate_data E self sid reason w)) =
           activity_log (log_data_activity E self ''DELETE'' sid
                           (Some [(''reason'', MStr reason)]) w)"
    by (rule delete_logs[OF assms(1)])
  have e: "\<not> io_fails w OpRead (log_path self) \<and> \<not> io_fails w OpWrite (log_path self) \<and>
          activity_log w \<noteq> BadLog \<and> length (log_entries w) < 1000 \<longrightarrow>
            log_entries (snd (delete_candidate_data E self sid reason w)) =
              log_entries w @ [new_log_entry E ''DELETE'' sid (Some [(''reason'', MStr reason)]) w]"
    by (auto simp add: log_entries_def l log_data_activity_def now_def Let_def new_log_entry_def
          io_fails_def split: log_file.splits)
  have u: "activity_log w = BadLog \<or> io_fails w OpWrite (log_path self) \<or>
          (activity_log w \<noteq> NoLog \<and> io_fails w OpRead (log_path self)) \<longrightarrow>
            activity_log (snd (delete_candidate_data E self sid reason w)) = activity_log w"
    by (auto simp add: l log_data_activity_def now_def Let_def io_fails_def
          split: log_file.splits)
  show ?thesis
    using delete_existing[OF assms] delete_removes_record[OF assms(1)]
      delete_exports[OF assms(1)] l e u by blast
qed

theorem delete_success_iff_all_removed_witness:
  "map_of (encrypted tidy_world) (candidate_filename ''s1'') \<noteq> None \<and>
   distinct (map fst (exports tidy_world)) \<and>
   fst (delete_candidate_data demo_libs demo_handler ''s1'' ''user_request'' tidy_world) \<and>
   map_of (encrypted (snd (delete_candidate_data demo_libs demo_handler ''s1'' ''user_request''
                             tidy_world))) (candidate_filename ''s1'') = None \<and>
   exports (snd (delete_candidate_data demo_libs demo_handler ''s1'' ''user_request'' tidy_world)) =
     [(''export_s2_19700103_000000.json'', 172800000000, demo_export)] \<and>
   log_entries (snd (delete_candidate_data demo_libs demo_handler ''s1'' ''user_request''
                       tidy_world)) =
     [\<lparr>log_timestamp = ''new'', log_activity = ''DELETE'', log_session_id = ''s1'',
       log_metadata = [(''reason'', MStr ''user_request'')]\<rparr>]"
proof -
  have h: "map_of (encrypted tidy_world) (candidate_filename ''s1'') \<noteq> None"
    "distinct (map fst (exports tidy_world))"
    by (simp_all add: tidy_world_def demo_world_def candidate_filename_def)
  have io: "\<not> io_fails tidy_world op p" for op p
    by (simp add: io_fails_def tidy_world_def demo_world_def)
  have lg: "activity_log tidy_world \<noteq> BadLog" "length (log_entries tidy_world) < 1000"
    "log_entries tidy_world = []"
    by (simp_all add: log_entries_def tidy_world_def demo_world_def)
  have nw: "new_log_entry demo_libs ''DELETE'' ''s1'' (Some [(''reason'', MStr ''user_request'')])
              tidy_world =
     \<lparr>log_timestamp = ''new'', log_activity = ''DELETE'', log_session_id = ''s1'',
       log_metadata = [(''reason'', MStr ''user_request'')]\<rparr>"
    by (simp add: new_log_entry_def tidy_world_def demo_world_def demo_libs_def)
  have ex: "filter (\<lambda>e. \<not> prefix (''export_'' @ ''s1'' @ ''_'') (fst e)) (exports tidy_world) =
     [(''export_s2_19700103_000000.json'', 172800000000, demo_export)]"
    by (simp add: tidy_world_def demo_world_def)
  show ?thesis
    using h io lg nw ex
      delete_success_iff_all_removed[OF h, of demo_libs demo_handler "''user_request''"]
    by simp
qed

subsection \<open>Retention sweep\<close>






lemma cleanup_exports_keeps:
  "encrypted (snd (cleanup_exports self c names w)) = encrypted w \<and>
   denied (snd (cleanup_exports self c names w)) = denied w"
proof (induction names arbitrary: w)
  case Nil
  show ?case by simp
next
  case (Cons f rest)
  show ?case
  proof (cases "map_of (exports w) f")
    case None
    then show ?thesis using Cons.IH[of w] by simp
  next
    case (Some v)
    obtain mtime ed where v: "v = (mtime, ed)" by (cases v)
    show ?thesis
      using Cons.IH[of w] Cons.IH[of "w\<lparr>exports := AList.delete f (exports w)\<rparr>"]
      by (simp add: Some v)
  qed
qed

lemma cleanup_exports_frame [simp]:
  "encrypted (snd (cleanup_exports self c names w)) = encrypted w"
  "denied (snd (cleanup_exports self c names w)) = denied w"
  using cleanup_exports_keeps[of self c names w] by simp_all





subsection \<open>Privacy report\<close>

lemma content_date_cleartext: "content_date E (cleartext c) = content_date E c"
  by (simp add: content_date_def cleartext_def split: content.splits)

lemma read_date:
  "map_option snd (read_record E self w f) =
     (case map_of (encrypted w) f of
        None \<Rightarrow> None
      | Some c \<Rightarrow>
          if (OpRead, data_dir self @ ''/encrypted/'' @ f) \<in> denied w then None
          else content_date E c)"
  by (simp add: read_record_def content_date_def io_fails_def encrypted_path_def
        split: option.splits content.splits)

lemma map_of_cleartext:
  "map_of (map (\<lambda>e. (fst e, cleartext (snd e))) al) f = map_option cleartext (map_of al f)"
  by (induction al) auto

lemma same_cleartext_lookup:
  assumes "same_cleartext w w'"
  shows "map_option cleartext (map_of (encrypted w') f) = map_option cleartext (map_of (encrypted w) f)"
proof -
  from assms have "map (\<lambda>e. (fst e, cleartext (snd e))) (encrypted w') =
      map (\<lambda>e. (fst e, cleartext (snd e))) (encrypted w)"
    by (simp add: same_cleartext_def)
  then have "map_of (map (\<lambda>e. (fst e, cleartext (snd e))) (encrypted w')) f =
      map_of (map (\<lambda>e. (fst e, cleartext (snd e))) (encrypted w)) f"
    by simp
  then show ?thesis by (simp only: map_of_cleartext)
qed

lemma same_cleartext_names:
  assumes "same_cleartext w w'"
  shows "map fst (encrypted w') = map fst (encrypted w)"
proof -
  from assms have "map (\<lambda>e. (fst e, cleartext (snd e))) (encrypted w') =
      map (\<lambda>e. (fst e, cleartext (snd e))) (encrypted w)"
    by (simp add: same_cleartext_def)
  then have "map fst (map (\<lambda>e. (fst e, cleartext (snd e))) (encrypted w')) =
      map fst (map (\<lambda>e. (fst e, cleartext (snd e))) (encrypted w))"
    by simp
  then show ?thesis by (simp add: comp_def)
qed

lemma same_cleartext_date:
  assumes s: "same_cleartext w w'" and dir: "data_dir self' = data_dir self"
    and iso: "fromisoformat E' = fromisoformat E"
  shows "map_option snd (read_record E' self' (snd (now w')) f) =
         map_option snd (read_record E self (snd (now w)) f)"
proof -
  have den: "denied w' = denied w" using s by (simp add: same_cleartext_def)
  have cd: "content_date E' c = content_date E c" for c
    by (simp add: content_date_def iso split: content.splits option.splits)
  have l: "map_option cleartext (map_of (encrypted w') f) =
           map_option cleartext (map_of (encrypted w) f)"
    by (rule same_cleartext_lookup[OF s])
  show ?thesis
  proof (cases "map_of (encrypted w) f")
    case None
    with l have "map_of (encrypted w') f = None" by simp
    with None show ?thesis by (simp add: read_date)
  next
    case (Some c)
    with l obtain c' where c': "map_of (encrypted w') f = Some c'" "cleartext c' = cleartext c"
      by (cases "map_of (encrypted w') f") auto
    have "content_date E c' = content_date E c"
      using content_date_cleartext[of E c'] content_date_cleartext[of E c] c'(2) by simp
    then show ?thesis
      by (simp add: read_date Some c'(1) den dir cd)
  qed
qed

lemma report_fst:
  "fst (get_privacy_report E self w) =
     (if (OpList, data_dir self @ ''/encrypted'') \<in> denied w then ReportError
      else (case (case activity_log w of
                    NoLog \<Rightarrow> Some []
                  | BadLog \<Rightarrow> None
                  | Log acts \<Rightarrow>
                      if (OpRead, data_dir self @ ''/activity_log.json'') \<in> denied w then None
                      else Some (last_n 10 acts)) of
              None \<Rightarrow> ReportError
            | Some acts \<Rightarrow>
                Report
                  \<lparr>generated_at = isoformat E (clock w (ticks w)),
                   total_records = length (filter (prefix ''candidate_'') (map fst (encrypted w))),
                   encrypted_records =
                     length (filter (prefix ''candidate_'') (map fst (encrypted w))),
                   oldest_record =
                     (if List.map_filter
                           (\<lambda>filename. map_option snd (read_record E self (snd (now w)) filename))
                           (filter (prefix ''candidate_'') (map fst (encrypted w))) \<noteq> []
                      then Some (isoformat E (min_date (List.map_filter
                           (\<lambda>filename. map_option snd (read_record E self (snd (now w)) filename))
                           (filter (prefix ''candidate_'') (map fst (encrypted w))))))
                      else None),
                   newest_record =
                     (if List.map_filter
                           (\<lambda>filename. map_option snd (read_record E self (snd (now w)) filename))
                           (filter (prefix ''candidate_'') (map fst (encrypted w))) \<noteq> []
                      then Some (isoformat E (max_date (List.map_filter
                           (\<lambda>filename. map_option snd (read_record E self (snd (now w)) filename))
                           (filter (prefix ''candidate_'') (map fst (encrypted w))))))
                      else None),
                   compliance_status =
                     \<lparr>encryption_enabled = True, retention_policy_active = True,
                      audit_logging_enabled = True, report_gdpr_compliant = True\<rparr>,
                   recent_activities = acts\<rparr>))"
  by (simp add: get_privacy_report_def split_beta Let_def io_fails_def encrypted_dir_def
        log_path_def split: option.splits log_file.splits)

text \<open>
  Claim C9. \<^verbatim>\<open>get_privacy_report\<close> reads only cleartext: for two worlds with the same
  cleartext (same file names, session ids, time stamps and audit log, any encrypted
  fields), for handlers on the same directory with any keys, and for libraries that agree
  on the two date functions and are otherwise arbitrary (ciphers included), the reports
  are identical.
\<close>

theorem report_independent_of_encrypted_fields:
  assumes s: "same_cleartext w w'" and dir: "data_dir self' = data_dir self"
    and iso: "isoformat E' = isoformat E" "fromisoformat E' = fromisoformat E"
  shows "fst (get_privacy_report E' self' w') = fst (get_privacy_report E self w)"
proof -
  have eqs: "clock w' = clock w" "ticks w' = ticks w" "activity_log w' = activity_log w"
    "denied w' = denied w"
    using s by (simp_all add: same_cleartext_def)
  have names: "map fst (encrypted w') = map fst (encrypted w)"
    by (rule same_cleartext_names[OF s])
  have dates: "(\<lambda>filename. map_option snd (read_record E' self' (snd (now w')) filename)) =
               (\<lambda>filename. map_option snd (read_record E self (snd (now w)) filename))"
    by (rule ext) (rule same_cleartext_date[OF s dir iso(2)])
  show ?thesis
    unfolding report_fst dates names eqs iso(1) dir ..
qed

theorem report_independent_of_encrypted_fields_witness:
  "same_cleartext (report_world ''ciphertext one'') (report_world ''two'') \<and>
   report_world ''ciphertext one'' \<noteq> report_world ''two'' \<and>
   fst (get_privacy_report failing_libs other_handler (report_world ''two'')) =
   fst (get_privacy_report demo_libs demo_handler (report_world ''ciphertext one'')) \<and>
   fst (get_privacy_report demo_libs demo_handler (report_world ''ciphertext one'')) =
     Report \<lparr>generated_at = ''new'', total_records = 3, encrypted_records = 3,
             oldest_record = Some ''old'', newest_record = Some ''new'',
             compliance_status =
               \<lparr>encryption_enabled = True, retention_policy_active = True,
                audit_logging_enabled = True, report_gdpr_compliant = True\<rparr>,
             recent_activities =
               [\<lparr>log_timestamp = ''old'', log_activity = ''SAVE'', log_session_id = ''s1'',
                 log_metadata = []\<rparr>]\<rparr>"
proof -
  have s: "same_cleartext (report_world ''ciphertext one'') (report_world ''two'')"
    by (simp add: same_cleartext_def report_world_def demo_world_def cleartext_def
          secret_record_def)
  have ne: "report_world ''ciphertext one'' \<noteq> report_world ''two''"
  proof
    assume "report_world ''ciphertext one'' = report_world ''two''"
    then have "rng (report_world ''ciphertext one'') = rng (report_world ''two'')" by simp
    then show False by (simp add: report_world_def)
  qed
  have h: "data_dir other_handler = data_dir demo_handler"
    "isoformat failing_libs = isoformat demo_libs"
    "fromisoformat failing_libs = fromisoformat demo_libs"
    by (simp_all add: other_handler_def demo_handler_def failing_libs_def)
  have v: "fst (get_privacy_report demo_libs demo_handler (report_world ''ciphertext one'')) =
     Report \<lparr>generated_at = ''new'', total_records = 3, encrypted_records = 3,
             oldest_record = Some ''old'', newest_record = Some ''new'',
             compliance_status =
               \<lparr>encryption_enabled = True, retention_policy_active = True,
                audit_logging_enabled = True, report_gdpr_compliant = True\<rparr>,
             recent_activities =
               [\<lparr>log_timestamp = ''old'', log_activity = ''SAVE'', log_session_id = ''s1'',
                 log_metadata = []\<rparr>]\<rparr>"
    by (simp add: get_privacy_report_def now_def io_fails_def read_record_def
          List.map_filter_simps min_date_def max_date_def last_n_def Let_def
          encrypted_dir_def encrypted_path_def log_path_def
          report_world_def demo_world_def demo_libs_def demo_handler_def secret_record_def)
  show ?thesis
    using s ne v report_independent_of_encrypted_fields[OF s h] by simp
qed

end
